theory Spec2Isabelle
  imports Main
begin

section \<open>Data model\<close>

text \<open>
  Both \<^verbatim>\<open>FastAPI/main.py\<close> and \<^verbatim>\<open>Flask/main.py\<close> declare a class \<^verbatim>\<open>Todo\<close> with
  the fields \<^verbatim>\<open>id\<close>, \<^verbatim>\<open>item\<close> and \<^verbatim>\<open>completed\<close>. The pydantic model of the FastAPI
  module holds an \<^verbatim>\<open>int\<close>, a \<^verbatim>\<open>str\<close> and a \<^verbatim>\<open>bool\<close>. The dataclass of the Flask module
  is built from \<^verbatim>\<open>data.get(...)\<close> with no check, so each of its fields holds whatever
  JSON value the request carried. One record, polymorphic in the three field types,
  serves both. The field \<^verbatim>\<open>id\<close> is written \<open>id'\<close>, since \<open>id\<close> is HOL's identity.
\<close>

record ('i, 's, 'c) Todo =
  id' :: 'i
  item :: 's
  completed :: 'c

text \<open>
  The values \<^verbatim>\<open>request.get_json()\<close> produces: \<^verbatim>\<open>None\<close>, booleans, integers, strings,
  lists and dicts. A dict is the association list of its items, read with \<open>map_of\<close>.
  Numbers with a fraction or an exponent (Python floats) are left out of the model.
\<close>

datatype json =
    JNull
  | JBool bool
  | JInt int
  | JStr string
  | JArr "json list"
  | JObj "(string \<times> json) list"

type_synonym fastapi_todo = "(int, string, bool) Todo"
type_synonym flask_todo = "(json, json, json) Todo"

text \<open>
  What a handler returns: the JSON document, by its shape, and the status code.
  \<open>Detail\<close> is the body of FastAPI's \<^verbatim>\<open>HTTPException\<close>, \<open>Error\<close> the
  \<^verbatim>\<open>{"error": ...}\<close> document of the Flask module, \<open>Uncaught\<close> an exception that
  leaves the handler (status 500), \<open>NoRoute\<close> a URL that no route matches.
\<close>

datatype 't payload =
    Message string
  | TodoList "'t list"
  | OneTodo 't
  | MessageTodo string 't
  | Detail string
  | Error string
  | Uncaught
  | NoRoute

type_synonym 't response = "nat \<times> 't payload"

datatype 'b request =
    Root
  | GetTodos
  | GetTodo int
  | CreateTodo 'b
  | UpdateTodo int 'b
  | ToggleComplete int
  | DeleteTodo int

section \<open>Python's equality and truth value on JSON values\<close>

text \<open>
  \<^verbatim>\<open>a == b\<close>. \<^verbatim>\<open>bool\<close> is a subclass of \<^verbatim>\<open>int\<close>, so \<^verbatim>\<open>True == 1\<close> and \<^verbatim>\<open>False == 0\<close>;
  lists are equal when they have the same length and equal elements; dicts are equal
  when they have the same keys and equal values under each key.
\<close>

function py_eq :: "json \<Rightarrow> json \<Rightarrow> bool" where
  "py_eq JNull y = (case y of JNull \<Rightarrow> True | _ \<Rightarrow> False)"
| "py_eq (JBool a) y =
     (case y of JBool b \<Rightarrow> a = b | JInt n \<Rightarrow> (if a then 1 else 0) = n | _ \<Rightarrow> False)"
| "py_eq (JInt m) y =
     (case y of JBool b \<Rightarrow> m = (if b then 1 else 0) | JInt n \<Rightarrow> m = n | _ \<Rightarrow> False)"
| "py_eq (JStr s) y = (case y of JStr t \<Rightarrow> s = t | _ \<Rightarrow> False)"
| "py_eq (JArr xs) y = (case y of JArr ys \<Rightarrow> list_all2 py_eq xs ys | _ \<Rightarrow> False)"
| "py_eq (JObj kvs) y =
     (case y of
        JObj kws \<Rightarrow>
          set (map fst kvs) = set (map fst kws) \<and>
          (\<forall>k \<in> set (map fst kvs).
             case map_of kvs k of
               None \<Rightarrow> False
             | Some v \<Rightarrow> (case map_of kws k of None \<Rightarrow> False | Some w \<Rightarrow> py_eq v w))
      | _ \<Rightarrow> False)"
  by pat_completeness auto
termination
proof -
  have value_smaller: "size v < Suc (size_list (size_prod (\<lambda>_. 0) size) kvs)"
    if "map_of kvs k = Some v" for kvs :: "(string \<times> json) list" and k v
    using that by (induction kvs) (auto split: if_splits)
  show ?thesis
    by (relation "measure (\<lambda>(x, y). size x)")
      (auto simp: less_Suc_eq_le size_list_estimation' dest: value_smaller)
qed

text \<open>\<^verbatim>\<open>bool(x)\<close>, as \<^verbatim>\<open>not x\<close> reads it.\<close>

fun truthy :: "json \<Rightarrow> bool" where
  "truthy JNull = False"
| "truthy (JBool b) = b"
| "truthy (JInt n) = (n \<noteq> 0)"
| "truthy (JStr s) = (s \<noteq> [])"
| "truthy (JArr xs) = (xs \<noteq> [])"
| "truthy (JObj kvs) = (kvs \<noteq> [])"

text \<open>\<^verbatim>\<open>data.get(key)\<close> and \<^verbatim>\<open>data.get(key, default)\<close> on a dict.\<close>

definition dict_get_default :: "(string \<times> json) list \<Rightarrow> string \<Rightarrow> json \<Rightarrow> json" where
  "dict_get_default d key dflt = (case map_of d key of None \<Rightarrow> dflt | Some v \<Rightarrow> v)"

definition dict_get :: "(string \<times> json) list \<Rightarrow> string \<Rightarrow> json" where
  "dict_get d key = dict_get_default d key JNull"

text \<open>\<^verbatim>\<open>isinstance(x, dict)\<close>: the values on which \<^verbatim>\<open>x.get\<close> exists.\<close>

fun is_dict :: "json \<Rightarrow> bool" where
  "is_dict (JObj d) = True"
| "is_dict _ = False"

text \<open>
  The \<^verbatim>\<open>__eq__\<close> a dataclass generates: the tuples of the fields are compared with
  \<^verbatim>\<open>==\<close>.
\<close>

definition todo_eq :: "flask_todo \<Rightarrow> flask_todo \<Rightarrow> bool" where
  "todo_eq a b \<longleftrightarrow>
     py_eq (id' a) (id' b) \<and> py_eq (item a) (item b) \<and> py_eq (completed a) (completed b)"

text \<open>
  \<^verbatim>\<open>todos.remove(todo)\<close> on a list of dataclass objects: the first element that is the
  argument itself, or equal to it, goes.
\<close>

fun py_remove :: "flask_todo \<Rightarrow> flask_todo list \<Rightarrow> flask_todo list" where
  "py_remove x [] = []"
| "py_remove x (y # ys) = (if y = x \<or> todo_eq y x then ys else y # py_remove x ys)"

section \<open>The FastAPI module\<close>

text \<open>
  The handlers of \<^verbatim>\<open>FastAPI/main.py\<close>. The module-level list \<^verbatim>\<open>todos\<close> is passed in and
  returned by the handlers that change it. A handler runs after FastAPI has parsed
  the path parameter as an \<^verbatim>\<open>int\<close> (any integer, negative ones too) and validated the
  body as a \<^verbatim>\<open>Todo\<close>.
\<close>

definition fastapi_root :: "fastapi_todo response" where
  "fastapi_root = (200, Message ''Welcome to my Todo Application'')"

definition fastapi_get_todos :: "fastapi_todo list \<Rightarrow> fastapi_todo response" where
  "fastapi_get_todos todos = (200, TodoList todos)"

fun fastapi_get_todo :: "fastapi_todo list \<Rightarrow> int \<Rightarrow> fastapi_todo response" where
  "fastapi_get_todo [] todo_id = (404, Detail ''Todo not found'')"
| "fastapi_get_todo (todo # rest) todo_id =
     (if id' todo = todo_id then (200, OneTodo todo) else fastapi_get_todo rest todo_id)"

definition fastapi_create_todo ::
  "fastapi_todo list \<Rightarrow> fastapi_todo \<Rightarrow> fastapi_todo list \<times> fastapi_todo response" where
  "fastapi_create_todo todos todo =
     (if list_ex (\<lambda>existing_todo. id' existing_todo = id' todo) todos
      then (todos, 400, Detail ''Todo with this ID already exists'')
      else (todos @ [todo], 201, MessageTodo ''Todo has been added'' todo))"

fun fastapi_update_todo ::
  "fastapi_todo list \<Rightarrow> int \<Rightarrow> fastapi_todo \<Rightarrow> fastapi_todo list \<times> fastapi_todo response" where
  "fastapi_update_todo [] todo_id todo_obj = ([], 404, Detail ''Todo not found'')"
| "fastapi_update_todo (todo # rest) todo_id todo_obj =
     (if id' todo = todo_id then
        (let todo' = todo\<lparr>item := item todo_obj, completed := completed todo_obj\<rparr>
         in (todo' # rest, 200, MessageTodo ''Todo updated'' todo'))
      else
        (case fastapi_update_todo rest todo_id todo_obj of
           (rest', r) \<Rightarrow> (todo # rest', r)))"

fun fastapi_toggle_complete ::
  "fastapi_todo list \<Rightarrow> int \<Rightarrow> fastapi_todo list \<times> fastapi_todo response" where
  "fastapi_toggle_complete [] todo_id = ([], 404, Detail ''Todo not found'')"
| "fastapi_toggle_complete (todo # rest) todo_id =
     (if id' todo = todo_id then
        (let todo' = todo\<lparr>completed := \<not> completed todo\<rparr>
         in (todo' # rest, 200, MessageTodo ''Todo completion status toggled'' todo'))
      else
        (case fastapi_toggle_complete rest todo_id of
           (rest', r) \<Rightarrow> (todo # rest', r)))"

text \<open>
  \<^verbatim>\<open>todos.remove(todo)\<close> compares with the \<^verbatim>\<open>__eq__\<close> of the pydantic model, which
  compares the fields: on an \<^verbatim>\<open>int\<close>, a \<^verbatim>\<open>str\<close> and a \<^verbatim>\<open>bool\<close> that is equality of the
  records, and \<open>remove1\<close> drops the first equal element.
\<close>

definition fastapi_delete_todo ::
  "fastapi_todo list \<Rightarrow> int \<Rightarrow> fastapi_todo list \<times> fastapi_todo response" where
  "fastapi_delete_todo todos todo_id =
     (case find (\<lambda>todo. id' todo = todo_id) todos of
        Some todo \<Rightarrow> (remove1 todo todos, 204, Message ''Todo removed'')
      | None \<Rightarrow> (todos, 404, Detail ''Todo not found''))"

text \<open>The routes of the module: each request goes to its handler.\<close>

fun fastapi_dispatch ::
  "fastapi_todo list \<Rightarrow> fastapi_todo request \<Rightarrow> fastapi_todo list \<times> fastapi_todo response" where
  "fastapi_dispatch todos Root = (todos, fastapi_root)"
| "fastapi_dispatch todos GetTodos = (todos, fastapi_get_todos todos)"
| "fastapi_dispatch todos (GetTodo todo_id) = (todos, fastapi_get_todo todos todo_id)"
| "fastapi_dispatch todos (CreateTodo todo) = fastapi_create_todo todos todo"
| "fastapi_dispatch todos (UpdateTodo todo_id todo_obj) =
     fastapi_update_todo todos todo_id todo_obj"
| "fastapi_dispatch todos (ToggleComplete todo_id) = fastapi_toggle_complete todos todo_id"
| "fastapi_dispatch todos (DeleteTodo todo_id) = fastapi_delete_todo todos todo_id"

section \<open>The Flask module\<close>

text \<open>
  The handlers of \<^verbatim>\<open>Flask/main.py\<close>. \<open>data\<close> is the value of \<^verbatim>\<open>request.get_json()\<close>.
  \<^verbatim>\<open>data.get\<close> exists on a dict only: on any other value the attribute lookup raises,
  the exception leaves the handler and the answer is status 500.
\<close>

definition flask_root :: "flask_todo response" where
  "flask_root = (200, Message ''Welcome to my Todo Application'')"

definition flask_get_todos :: "flask_todo list \<Rightarrow> flask_todo response" where
  "flask_get_todos todos = (200, TodoList todos)"

fun flask_get_todo :: "flask_todo list \<Rightarrow> int \<Rightarrow> flask_todo response" where
  "flask_get_todo [] todo_id = (404, Error ''Todo not found'')"
| "flask_get_todo (todo # rest) todo_id =
     (if py_eq (id' todo) (JInt todo_id) then (200, OneTodo todo)
      else flask_get_todo rest todo_id)"

text \<open>
  The \<^verbatim>\<open>Todo(id=data.get('id'), item=data.get('item'),
  completed=data.get('completed', False))\<close> of \<^verbatim>\<open>create_todo\<close>.
\<close>

definition new_todo :: "(string \<times> json) list \<Rightarrow> flask_todo" where
  "new_todo d =
     \<lparr>id' = dict_get d ''id'',
      item = dict_get d ''item'',
      completed = dict_get_default d ''completed'' (JBool False)\<rparr>"

definition flask_create_todo ::
  "flask_todo list \<Rightarrow> json \<Rightarrow> flask_todo list \<times> flask_todo response" where
  "flask_create_todo todos data =
     (case data of
        JObj d \<Rightarrow>
          (if list_ex (\<lambda>existing_todo. py_eq (id' existing_todo) (dict_get d ''id'')) todos
           then (todos, 400, Error ''Todo with this ID already exists'')
           else (todos @ [new_todo d], 201, MessageTodo ''Todo has been added'' (new_todo d)))
      | _ \<Rightarrow> (todos, 500, Uncaught))"

fun flask_update_todo ::
  "flask_todo list \<Rightarrow> int \<Rightarrow> json \<Rightarrow> flask_todo list \<times> flask_todo response" where
  "flask_update_todo [] todo_id data = ([], 404, Error ''Todo not found'')"
| "flask_update_todo (todo # rest) todo_id data =
     (if py_eq (id' todo) (JInt todo_id) then
        (case data of
           JObj d \<Rightarrow>
             (let todo' = todo\<lparr>item := dict_get_default d ''item'' (item todo),
                               completed := dict_get_default d ''completed'' (completed todo)\<rparr>
              in (todo' # rest, 200, MessageTodo ''Todo updated'' todo'))
         | _ \<Rightarrow> (todo # rest, 500, Uncaught))
      else
        (case flask_update_todo rest todo_id data of
           (rest', r) \<Rightarrow> (todo # rest', r)))"

fun flask_toggle_complete ::
  "flask_todo list \<Rightarrow> int \<Rightarrow> flask_todo list \<times> flask_todo response" where
  "flask_toggle_complete [] todo_id = ([], 404, Error ''Todo not found'')"
| "flask_toggle_complete (todo # rest) todo_id =
     (if py_eq (id' todo) (JInt todo_id) then
        (let todo' = todo\<lparr>completed := JBool (\<not> truthy (completed todo))\<rparr>
         in (todo' # rest, 200, MessageTodo ''Todo completion status toggled'' todo'))
      else
        (case flask_toggle_complete rest todo_id of
           (rest', r) \<Rightarrow> (todo # rest', r)))"

definition flask_delete_todo ::
  "flask_todo list \<Rightarrow> int \<Rightarrow> flask_todo list \<times> flask_todo response" where
  "flask_delete_todo todos todo_id =
     (case find (\<lambda>todo. py_eq (id' todo) (JInt todo_id)) todos of
        Some todo \<Rightarrow> (py_remove todo todos, 204, Message ''Todo removed'')
      | None \<Rightarrow> (todos, 404, Error ''Todo not found''))"

text \<open>The handlers as operations on the store, whatever the way they are called.\<close>

fun flask_handle ::
  "flask_todo list \<Rightarrow> json request \<Rightarrow> flask_todo list \<times> flask_todo response" where
  "flask_handle todos Root = (todos, flask_root)"
| "flask_handle todos GetTodos = (todos, flask_get_todos todos)"
| "flask_handle todos (GetTodo todo_id) = (todos, flask_get_todo todos todo_id)"
| "flask_handle todos (CreateTodo data) = flask_create_todo todos data"
| "flask_handle todos (UpdateTodo todo_id data) = flask_update_todo todos todo_id data"
| "flask_handle todos (ToggleComplete todo_id) = flask_toggle_complete todos todo_id"
| "flask_handle todos (DeleteTodo todo_id) = flask_delete_todo todos todo_id"

text \<open>
  The routes of the module. The four routes with an id are declared with the
  converter \<^verbatim>\<open><int:todo_id>\<close>, which matches a run of digits and nothing else: a URL
  whose id segment is a negative number matches no route, no handler runs and the
  answer is status 404.
\<close>

fun path_id :: "'b request \<Rightarrow> int option" where
  "path_id (GetTodo todo_id) = Some todo_id"
| "path_id (UpdateTodo todo_id data) = Some todo_id"
| "path_id (ToggleComplete todo_id) = Some todo_id"
| "path_id (DeleteTodo todo_id) = Some todo_id"
| "path_id _ = None"

definition int_converter_matches :: "'b request \<Rightarrow> bool" where
  "int_converter_matches req = (case path_id req of None \<Rightarrow> True | Some n \<Rightarrow> 0 \<le> n)"

definition flask_dispatch ::
  "flask_todo list \<Rightarrow> json request \<Rightarrow> flask_todo list \<times> flask_todo response" where
  "flask_dispatch todos req =
     (if int_converter_matches req then flask_handle todos req else (todos, 404, NoRoute))"

section \<open>Sequences of requests\<close>

text \<open>
  A server process starts with the empty list and answers one request after the
  other: \<open>serve\<close> returns the store after the last request and the responses in order.
\<close>

fun serve ::
  "('s \<Rightarrow> 'r \<Rightarrow> 's \<times> 'a) \<Rightarrow> 's \<Rightarrow> 'r list \<Rightarrow> 's \<times> 'a list" where
  "serve step s [] = (s, [])"
| "serve step s (r # rs) =
     (case step s r of
        (s', a) \<Rightarrow> (case serve step s' rs of (s'', as) \<Rightarrow> (s'', a # as)))"

definition fastapi_run ::
  "fastapi_todo request list \<Rightarrow> fastapi_todo list \<times> fastapi_todo response list" where
  "fastapi_run reqs = serve fastapi_dispatch [] reqs"

definition flask_run ::
  "json request list \<Rightarrow> flask_todo list \<times> flask_todo response list" where
  "flask_run reqs = serve flask_dispatch [] reqs"

definition flask_run_handlers ::
  "json request list \<Rightarrow> flask_todo list \<times> flask_todo response list" where
  "flask_run_handlers reqs = serve flask_handle [] reqs"

section \<open>Notions used by the properties\<close>

text \<open>No two values of a list are equal for \<^verbatim>\<open>==\<close>, in either order.\<close>

fun py_distinct :: "json list \<Rightarrow> bool" where
  "py_distinct [] = True"
| "py_distinct (x # xs) = ((\<forall>y \<in> set xs. \<not> py_eq x y \<and> \<not> py_eq y x) \<and> py_distinct xs)"

text \<open>
  A full Todo body, as JSON: the document that carries all three fields with the
  types of the Todo shape. FastAPI validates it into the \<^verbatim>\<open>Todo\<close> it was built from;
  Flask hands it to the handler as the dict.
\<close>

definition todo_json :: "fastapi_todo \<Rightarrow> json" where
  "todo_json t =
     JObj [(''id'', JInt (id' t)), (''item'', JStr (item t)), (''completed'', JBool (completed t))]"

text \<open>The Flask record that holds the same three values.\<close>

definition as_flask :: "fastapi_todo \<Rightarrow> flask_todo" where
  "as_flask t = \<lparr>id' = JInt (id' t), item = JStr (item t), completed = JBool (completed t)\<rparr>"

text \<open>
  The same answer from the Flask module: same status, same document, the message of a
  failure under the key \<^verbatim>\<open>error\<close> where FastAPI has \<^verbatim>\<open>detail\<close>.
\<close>

fun as_flask_payload :: "fastapi_todo payload \<Rightarrow> flask_todo payload" where
  "as_flask_payload (Message m) = Message m"
| "as_flask_payload (TodoList ts) = TodoList (map as_flask ts)"
| "as_flask_payload (OneTodo t) = OneTodo (as_flask t)"
| "as_flask_payload (MessageTodo m t) = MessageTodo m (as_flask t)"
| "as_flask_payload (Detail m) = Error m"
| "as_flask_payload (Error m) = Error m"
| "as_flask_payload Uncaught = Uncaught"
| "as_flask_payload NoRoute = NoRoute"

definition as_flask_response :: "fastapi_todo response \<Rightarrow> flask_todo response" where
  "as_flask_response r = (fst r, as_flask_payload (snd r))"

section \<open>Facts about Python's equality\<close>

lemma py_eq_JInt_iff:
  "py_eq x (JInt n) \<longleftrightarrow>
     x = JInt n \<or> (x = JBool True \<and> n = 1) \<or> (x = JBool False \<and> n = 0)"
  by (cases x) auto

lemma py_eq_JNull_iff: "py_eq x JNull \<longleftrightarrow> x = JNull"
  by (cases x) auto

lemma py_eq_JObj:
  "py_eq (JObj kvs) (JObj kws) \<longleftrightarrow>
     set (map fst kvs) = set (map fst kws) \<and>
     (\<forall>k \<in> set (map fst kvs).
        \<exists>v w. map_of kvs k = Some v \<and> map_of kws k = Some w \<and> py_eq v w)"
  by (simp split: option.splits) (metis option.exhaust option.inject option.distinct(1))

lemma py_eq_refl: "py_eq x x"
proof (induction x)
  case (JArr xs)
  then show ?case by (simp add: list_all2_same)
next
  case (JObj kvs)
  have "\<And>k v. map_of kvs k = Some v \<Longrightarrow> py_eq v v"
    using JObj by (force dest!: map_of_SomeD)
  then show ?case by (auto split: option.splits simp: map_of_eq_None_iff)
qed simp_all

lemma py_eq_sym: "py_eq x y \<Longrightarrow> py_eq y x"
proof (induction x arbitrary: y)
  case (JArr xs)
  then show ?case
    by (cases y) (auto simp: list_all2_conv_all_nth)
next
  case (JObj kvs)
  from JObj.prems obtain kws where y: "y = JObj kws"
    by (cases y) auto
  from JObj.prems have keys: "set (map fst kvs) = set (map fst kws)"
    by (simp add: y)
  have "\<exists>v w. map_of kws k = Some w \<and> map_of kvs k = Some v \<and> py_eq w v"
    if k: "k \<in> set (map fst kws)" for k
  proof -
    from k keys have k': "k \<in> set (map fst kvs)" by simp
    with JObj.prems obtain v w where
      vw: "map_of kvs k = Some v" "map_of kws k = Some w" "py_eq v w"
      unfolding y py_eq_JObj by blast
    from vw(1) have "(k, v) \<in> set kvs" by (rule map_of_SomeD)
    then have "py_eq w v"
      using JObj.IH [of "(k, v)" v w] vw(3) by simp
    with vw show ?thesis by blast
  qed
  then show ?case
    unfolding y py_eq_JObj using keys by blast
qed (auto split: json.splits if_splits)

section \<open>Facts about the linear scan and about sequences of requests\<close>

lemma find_first_match:
  "\<forall>x \<in> set pre. \<not> P x \<Longrightarrow> P t \<Longrightarrow> find P (pre @ t # post) = Some t"
  by (induction pre) auto

lemma first_match_split:
  "\<exists>x \<in> set xs. P x \<Longrightarrow> \<exists>pre t post. xs = pre @ t # post \<and> (\<forall>x \<in> set pre. \<not> P x) \<and> P t"
  by (metis split_list_first_prop)

lemma find_Some_split:
  "find P xs = Some x \<Longrightarrow> \<exists>pre post. xs = pre @ x # post \<and> (\<forall>y \<in> set pre. \<not> P y) \<and> P x"
proof (induction xs)
  case Nil
  then show ?case by simp
next
  case (Cons a xs)
  show ?case
  proof (cases "P a")
    case True
    with Cons.prems have "a = x" by simp
    with True have "a # xs = [] @ x # xs \<and> (\<forall>y \<in> set []. \<not> P y) \<and> P x" by simp
    then show ?thesis by blast
  next
    case False
    with Cons obtain pre post where "xs = pre @ x # post" "\<forall>y \<in> set pre. \<not> P y" "P x"
      by auto
    with False have "a # xs = (a # pre) @ x # post \<and> (\<forall>y \<in> set (a # pre). \<not> P y) \<and> P x"
      by simp
    then show ?thesis by blast
  qed
qed

lemma fst_serve_Cons:
  "fst (serve step s (r # rs)) = fst (serve step (fst (step s r)) rs)"
  by (simp split: prod.splits)

lemma snd_serve_Cons:
  "snd (serve step s (r # rs)) = snd (step s r) # snd (serve step (fst (step s r)) rs)"
  by (simp split: prod.splits)

lemma serve_invariant:
  assumes "\<And>s r. P s \<Longrightarrow> P (fst (step s r))"
  shows "P s \<Longrightarrow> P (fst (serve step s rs))"
proof (induction rs arbitrary: s)
  case Nil
  then show ?case by simp
next
  case (Cons r rs)
  from Cons.prems have "P (fst (step s r))" by (rule assms)
  then have "P (fst (serve step (fst (step s r)) rs))" by (rule Cons.IH)
  then show ?case by (simp only: fst_serve_Cons)
qed

section \<open>Facts about the FastAPI handlers\<close>

lemma fastapi_get_todo_absent:
  "todo_id \<notin> id' ` set todos \<Longrightarrow> fastapi_get_todo todos todo_id = (404, Detail ''Todo not found'')"
  by (induction todos) auto

lemma fastapi_get_todo_first:
  "\<forall>x \<in> set pre. id' x \<noteq> todo_id \<Longrightarrow> id' t = todo_id \<Longrightarrow>
   fastapi_get_todo (pre @ t # post) todo_id = (200, OneTodo t)"
  by (induction pre) (auto simp: Let_def)

lemma fastapi_update_todo_absent:
  "todo_id \<notin> id' ` set todos \<Longrightarrow>
   fastapi_update_todo todos todo_id obj = (todos, 404, Detail ''Todo not found'')"
  by (induction todos) auto

lemma fastapi_update_todo_first:
  "\<forall>x \<in> set pre. id' x \<noteq> todo_id \<Longrightarrow> id' t = todo_id \<Longrightarrow>
   fastapi_update_todo (pre @ t # post) todo_id obj =
     (pre @ t\<lparr>item := item obj, completed := completed obj\<rparr> # post, 200,
      MessageTodo ''Todo updated'' (t\<lparr>item := item obj, completed := completed obj\<rparr>))"
  by (induction pre) (auto simp: Let_def)

lemma fastapi_toggle_complete_absent:
  "todo_id \<notin> id' ` set todos \<Longrightarrow>
   fastapi_toggle_complete todos todo_id = (todos, 404, Detail ''Todo not found'')"
  by (induction todos) auto

lemma fastapi_toggle_complete_first:
  "\<forall>x \<in> set pre. id' x \<noteq> todo_id \<Longrightarrow> id' t = todo_id \<Longrightarrow>
   fastapi_toggle_complete (pre @ t # post) todo_id =
     (pre @ t\<lparr>completed := \<not> completed t\<rparr> # post, 200,
      MessageTodo ''Todo completion status toggled'' (t\<lparr>completed := \<not> completed t\<rparr>))"
  by (induction pre) (auto simp: Let_def)

lemma fastapi_delete_todo_absent:
  "todo_id \<notin> id' ` set todos \<Longrightarrow>
   fastapi_delete_todo todos todo_id = (todos, 404, Detail ''Todo not found'')"
  by (auto simp: fastapi_delete_todo_def find_None_iff split: option.splits)

lemma fastapi_delete_todo_first:
  assumes "\<forall>x \<in> set pre. id' x \<noteq> todo_id" and "id' t = todo_id"
  shows "fastapi_delete_todo (pre @ t # post) todo_id = (pre @ post, 204, Message ''Todo removed'')"
proof -
  have "find (\<lambda>todo. id' todo = todo_id) (pre @ t # post) = Some t"
    using assms by (intro find_first_match) auto
  moreover have "t \<notin> set pre"
    using assms by auto
  ultimately show ?thesis
    by (simp add: fastapi_delete_todo_def remove1_append)
qed

lemma fastapi_update_todo_ids:
  "map id' (fst (fastapi_update_todo todos todo_id obj)) = map id' todos"
  by (induction todos) (auto simp: Let_def split: prod.splits)

lemma fastapi_toggle_complete_ids:
  "map id' (fst (fastapi_toggle_complete todos todo_id)) = map id' todos"
  by (induction todos) (auto simp: Let_def split: prod.splits)

lemma fastapi_update_todo_others:
  "j < length todos \<Longrightarrow> id' (todos ! j) \<noteq> todo_id \<Longrightarrow>
   fst (fastapi_update_todo todos todo_id obj) ! j = todos ! j"
  by (induction todos arbitrary: j) (auto simp: Let_def nth_Cons split: prod.splits nat.splits)

lemma fastapi_toggle_complete_others:
  "j < length todos \<Longrightarrow> id' (todos ! j) \<noteq> todo_id \<Longrightarrow>
   fst (fastapi_toggle_complete todos todo_id) ! j = todos ! j"
  by (induction todos arbitrary: j) (auto simp: Let_def nth_Cons split: prod.splits nat.splits)

lemma distinct_map_remove1:
  "distinct (map f xs) \<Longrightarrow> distinct (map f (remove1 x xs))"
proof (induction xs)
  case (Cons a xs)
  have "set (remove1 x xs) \<subseteq> set xs" by (rule set_remove1_subset)
  with Cons show ?case by auto
qed simp

lemma fastapi_dispatch_distinct:
  assumes "distinct (map id' todos)"
  shows "distinct (map id' (fst (fastapi_dispatch todos req)))"
proof (cases req)
  case (CreateTodo t)
  with assms show ?thesis
    by (auto simp: fastapi_create_todo_def list_ex_iff)
next
  case (DeleteTodo n)
  with assms show ?thesis
    by (auto simp: fastapi_delete_todo_def distinct_map_remove1 split: option.splits)
qed (simp_all add: assms fastapi_update_todo_ids fastapi_toggle_complete_ids)

section \<open>Facts about the Flask handlers\<close>

lemma flask_get_todo_absent:
  "\<forall>x \<in> set todos. \<not> py_eq (id' x) (JInt todo_id) \<Longrightarrow>
   flask_get_todo todos todo_id = (404, Error ''Todo not found'')"
  by (induction todos) auto

lemma flask_update_todo_absent:
  "\<forall>x \<in> set todos. \<not> py_eq (id' x) (JInt todo_id) \<Longrightarrow>
   flask_update_todo todos todo_id data = (todos, 404, Error ''Todo not found'')"
  by (induction todos) auto

lemma flask_update_todo_first:
  "\<forall>x \<in> set pre. \<not> py_eq (id' x) (JInt todo_id) \<Longrightarrow> py_eq (id' t) (JInt todo_id) \<Longrightarrow>
   flask_update_todo (pre @ t # post) todo_id (JObj d) =
     (pre @ t\<lparr>item := dict_get_default d ''item'' (item t),
               completed := dict_get_default d ''completed'' (completed t)\<rparr> # post, 200,
      MessageTodo ''Todo updated''
        (t\<lparr>item := dict_get_default d ''item'' (item t),
           completed := dict_get_default d ''completed'' (completed t)\<rparr>))"
  by (induction pre) (auto simp: Let_def)

lemma flask_update_todo_not_dict:
  "list_ex (\<lambda>todo. py_eq (id' todo) (JInt todo_id)) todos \<Longrightarrow> \<not> is_dict data \<Longrightarrow>
   flask_update_todo todos todo_id data = (todos, 500, Uncaught)"
  by (induction todos) (auto split: json.splits)

lemma flask_dispatch_path_id:
  "path_id req = Some n \<Longrightarrow> 0 \<le> n \<Longrightarrow> flask_dispatch todos req = flask_handle todos req"
  "path_id req = Some n \<Longrightarrow> n < 0 \<Longrightarrow> flask_dispatch todos req = (todos, 404, NoRoute)"
  by (simp_all add: flask_dispatch_def int_converter_matches_def)

lemma flask_toggle_complete_absent:
  "\<forall>x \<in> set todos. \<not> py_eq (id' x) (JInt todo_id) \<Longrightarrow>
   flask_toggle_complete todos todo_id = (todos, 404, Error ''Todo not found'')"
  by (induction todos) auto

lemma flask_toggle_complete_first:
  "\<forall>x \<in> set pre. \<not> py_eq (id' x) (JInt todo_id) \<Longrightarrow> py_eq (id' t) (JInt todo_id) \<Longrightarrow>
   flask_toggle_complete (pre @ t # post) todo_id =
     (pre @ t\<lparr>completed := JBool (\<not> truthy (completed t))\<rparr> # post, 200,
      MessageTodo ''Todo completion status toggled''
        (t\<lparr>completed := JBool (\<not> truthy (completed t))\<rparr>))"
  by (induction pre) (auto simp: Let_def)

lemma flask_delete_todo_absent:
  "\<forall>x \<in> set todos. \<not> py_eq (id' x) (JInt todo_id) \<Longrightarrow>
   flask_delete_todo todos todo_id = (todos, 404, Error ''Todo not found'')"
  by (auto simp: flask_delete_todo_def find_None_iff split: option.splits)

lemma flask_update_todo_ids:
  "map id' (fst (flask_update_todo todos todo_id data)) = map id' todos"
  by (induction todos) (auto simp: Let_def split: prod.splits json.splits)

lemma flask_toggle_complete_ids:
  "map id' (fst (flask_toggle_complete todos todo_id)) = map id' todos"
  by (induction todos) (auto simp: Let_def split: prod.splits)

lemma flask_update_todo_others:
  "j < length todos \<Longrightarrow> \<not> py_eq (id' (todos ! j)) (JInt todo_id) \<Longrightarrow>
   fst (flask_update_todo todos todo_id data) ! j = todos ! j"
  by (induction todos arbitrary: j)
    (auto simp: Let_def nth_Cons split: prod.splits nat.splits json.splits)

lemma flask_toggle_complete_others:
  "j < length todos \<Longrightarrow> \<not> py_eq (id' (todos ! j)) (JInt todo_id) \<Longrightarrow>
   fst (flask_toggle_complete todos todo_id) ! j = todos ! j"
  by (induction todos arbitrary: j) (auto simp: Let_def nth_Cons split: prod.splits nat.splits)

lemma py_distinct_append:
  "py_distinct (xs @ [x]) \<longleftrightarrow>
     py_distinct xs \<and> (\<forall>y \<in> set xs. \<not> py_eq y x \<and> \<not> py_eq x y)"
  by (induction xs) auto

lemma py_distinct_py_remove:
  "py_distinct (map id' todos) \<Longrightarrow> py_distinct (map id' (py_remove t todos))"
proof (induction todos)
  case (Cons a todos)
  have sub: "set (py_remove t todos) \<subseteq> set todos" for todos
    by (induction todos) auto
  from Cons sub [of todos] show ?case by auto
qed simp

lemma flask_handle_py_distinct:
  assumes "py_distinct (map id' todos)"
  shows "py_distinct (map id' (fst (flask_handle todos req)))"
proof (cases req)
  case (CreateTodo data)
  with assms show ?thesis
    by (auto simp: flask_create_todo_def list_ex_iff py_distinct_append Let_def
        new_todo_def dest: py_eq_sym split: json.splits)
next
  case (DeleteTodo n)
  with assms show ?thesis
    by (auto simp: flask_delete_todo_def py_distinct_py_remove split: option.splits)
qed (simp_all add: assms flask_update_todo_ids flask_toggle_complete_ids)

lemma flask_dispatch_py_distinct:
  "py_distinct (map id' todos) \<Longrightarrow> py_distinct (map id' (fst (flask_dispatch todos req)))"
  by (simp add: flask_dispatch_def flask_handle_py_distinct)

lemma py_distinct_distinct: "py_distinct xs \<Longrightarrow> distinct xs"
  by (induction xs) (auto simp: py_eq_refl)

section \<open>The two modules on full Todo bodies\<close>

lemma dict_get_todo_json:
  "dict_get [(''id'', JInt i), (''item'', JStr s), (''completed'', JBool c)] ''id'' = JInt i"
  "dict_get [(''id'', JInt i), (''item'', JStr s), (''completed'', JBool c)] ''item'' = JStr s"
  "dict_get_default [(''id'', JInt i), (''item'', JStr s), (''completed'', JBool c)] ''item'' x = JStr s"
  "dict_get_default [(''id'', JInt i), (''item'', JStr s), (''completed'', JBool c)] ''completed'' y = JBool c"
  by (simp_all add: dict_get_def dict_get_default_def)

lemma new_todo_todo_json: "todo_json t = JObj d \<Longrightarrow> new_todo d = as_flask t"
  by (auto simp: todo_json_def new_todo_def as_flask_def dict_get_todo_json)

lemma as_flask_simps [simp]:
  "id' (as_flask t) = JInt (id' t)"
  "item (as_flask t) = JStr (item t)"
  "completed (as_flask t) = JBool (completed t)"
  by (simp_all add: as_flask_def)

lemma as_flask_inj: "as_flask a = as_flask b \<longleftrightarrow> a = b"
  by (cases a, cases b) (auto simp: as_flask_def)

lemma todo_eq_as_flask: "todo_eq (as_flask a) (as_flask b) \<longleftrightarrow> a = b"
  by (cases a, cases b) (auto simp: todo_eq_def as_flask_def)

lemma flask_get_todo_as_flask:
  "flask_get_todo (map as_flask todos) todo_id = as_flask_response (fastapi_get_todo todos todo_id)"
  by (induction todos) (auto simp: as_flask_response_def)

lemma flask_create_todo_as_flask:
  "flask_create_todo (map as_flask todos) (todo_json t) =
     (map as_flask (fst (fastapi_create_todo todos t)),
      as_flask_response (snd (fastapi_create_todo todos t)))"
proof -
  obtain d where d: "todo_json t = JObj d" by (simp add: todo_json_def)
  then have id: "dict_get d ''id'' = JInt (id' t)"
    by (auto simp: todo_json_def dict_get_todo_json)
  show ?thesis
    by (simp add: flask_create_todo_def fastapi_create_todo_def d id list_ex_iff
        new_todo_todo_json [OF d] as_flask_response_def)
qed

lemma flask_update_todo_as_flask:
  "flask_update_todo (map as_flask todos) todo_id (todo_json obj) =
     (map as_flask (fst (fastapi_update_todo todos todo_id obj)),
      as_flask_response (snd (fastapi_update_todo todos todo_id obj)))"
proof (induction todos)
  case Nil
  then show ?case by (simp add: as_flask_response_def)
next
  case (Cons a todos)
  show ?case
  proof (cases "id' a = todo_id")
    case True
    then show ?thesis
      by (simp add: todo_json_def dict_get_todo_json as_flask_response_def Let_def as_flask_def)
  next
    case False
    then show ?thesis
      using Cons by (simp split: prod.splits)
  qed
qed

lemma flask_toggle_complete_as_flask:
  "flask_toggle_complete (map as_flask todos) todo_id =
     (map as_flask (fst (fastapi_toggle_complete todos todo_id)),
      as_flask_response (snd (fastapi_toggle_complete todos todo_id)))"
proof (induction todos)
  case Nil
  then show ?case by (simp add: as_flask_response_def)
next
  case (Cons a todos)
  show ?case
  proof (cases "id' a = todo_id")
    case True
    then show ?thesis
      by (simp add: as_flask_response_def Let_def as_flask_def)
  next
    case False
    then show ?thesis
      using Cons by (simp split: prod.splits)
  qed
qed

lemma find_map_as_flask:
  "find (\<lambda>todo. py_eq (id' todo) (JInt todo_id)) (map as_flask todos) =
     map_option as_flask (find (\<lambda>todo. id' todo = todo_id) todos)"
  by (induction todos) auto

lemma py_remove_as_flask:
  "py_remove (as_flask t) (map as_flask todos) = map as_flask (remove1 t todos)"
  by (induction todos) (auto simp: as_flask_inj todo_eq_as_flask)

lemma flask_delete_todo_as_flask:
  "flask_delete_todo (map as_flask todos) todo_id =
     (map as_flask (fst (fastapi_delete_todo todos todo_id)),
      as_flask_response (snd (fastapi_delete_todo todos todo_id)))"
  by (simp add: flask_delete_todo_def fastapi_delete_todo_def find_map_as_flask
      py_remove_as_flask as_flask_response_def split: option.splits)

lemma flask_handle_as_flask:
  "flask_handle (map as_flask todos) (map_request todo_json req) =
     (map as_flask (fst (fastapi_dispatch todos req)),
      as_flask_response (snd (fastapi_dispatch todos req)))"
  by (cases req)
    (simp_all add: flask_get_todo_as_flask flask_create_todo_as_flask
      flask_update_todo_as_flask flask_toggle_complete_as_flask flask_delete_todo_as_flask
      flask_root_def fastapi_root_def flask_get_todos_def fastapi_get_todos_def
      as_flask_response_def)

lemma int_converter_matches_map_request [simp]:
  "int_converter_matches (map_request f req) = int_converter_matches req"
  by (cases req) (simp_all add: int_converter_matches_def)

lemma serve_as_flask:
  assumes "\<And>todos req. req \<in> set reqs \<Longrightarrow>
     step (map as_flask todos) (map_request todo_json req) =
       (map as_flask (fst (fastapi_dispatch todos req)),
        as_flask_response (snd (fastapi_dispatch todos req)))"
  shows "serve step (map as_flask todos) (map (map_request todo_json) reqs) =
     (map as_flask (fst (serve fastapi_dispatch todos reqs)),
      map as_flask_response (snd (serve fastapi_dispatch todos reqs)))"
  using assms
proof (induction reqs arbitrary: todos)
  case Nil
  then show ?case by simp
next
  case (Cons r reqs)
  have step: "step (map as_flask todos) (map_request todo_json r) =
       (map as_flask (fst (fastapi_dispatch todos r)),
        as_flask_response (snd (fastapi_dispatch todos r)))"
    by (rule Cons.prems) simp
  have IH: "serve step (map as_flask (fst (fastapi_dispatch todos r))) (map (map_request todo_json) reqs) =
     (map as_flask (fst (serve fastapi_dispatch (fst (fastapi_dispatch todos r)) reqs)),
      map as_flask_response (snd (serve fastapi_dispatch (fst (fastapi_dispatch todos r)) reqs)))"
    by (rule Cons.IH) (simp add: Cons.prems)
  show ?case
    by (simp add: step IH split: prod.splits)
qed

section \<open>Sequences of creates\<close>

lemma serve_fastapi_creates:
  "distinct (map id' (todos @ ts)) \<Longrightarrow>
   serve fastapi_dispatch todos (map CreateTodo ts) =
     (todos @ ts, map (\<lambda>t. (201, MessageTodo ''Todo has been added'' t)) ts)"
proof (induction ts arbitrary: todos)
  case Nil
  then show ?case by simp
next
  case (Cons t ts)
  from Cons.prems have "id' t \<notin> id' ` set todos"
    by auto
  then have fresh: "\<not> list_ex (\<lambda>e. id' e = id' t) todos"
    by (auto simp: list_ex_iff image_iff)
  from Cons.prems have "distinct (map id' ((todos @ [t]) @ ts))" by simp
  then have "serve fastapi_dispatch (todos @ [t]) (map CreateTodo ts) =
     ((todos @ [t]) @ ts, map (\<lambda>t. (201, MessageTodo ''Todo has been added'' t)) ts)"
    by (rule Cons.IH)
  with fresh show ?case
    by (simp add: fastapi_create_todo_def)
qed

lemma py_distinct_append2:
  "py_distinct (xs @ ys) \<longleftrightarrow>
     py_distinct xs \<and> py_distinct ys \<and> (\<forall>x \<in> set xs. \<forall>y \<in> set ys. \<not> py_eq x y \<and> \<not> py_eq y x)"
  by (induction xs) auto

lemma id_new_todo [simp]: "id' (new_todo d) = dict_get d ''id''"
  by (simp add: new_todo_def)

lemma serve_flask_creates:
  "py_distinct (map id' todos @ map (\<lambda>d. dict_get d ''id'') ds) \<Longrightarrow>
   serve step todos (map (\<lambda>d. CreateTodo (JObj d)) ds) =
     (todos @ map new_todo ds,
      map (\<lambda>d. (201, MessageTodo ''Todo has been added'' (new_todo d))) ds)"
  if step: "\<And>todos data. step todos (CreateTodo data) = flask_create_todo todos data"
proof (induction ds arbitrary: todos)
  case Nil
  then show ?case by simp
next
  case (Cons d ds)
  from Cons.prems have fresh: "\<not> list_ex (\<lambda>e. py_eq (id' e) (dict_get d ''id'')) todos"
    by (auto simp: list_ex_iff py_distinct_append2)
  from Cons.prems
  have "py_distinct (map id' (todos @ [new_todo d]) @ map (\<lambda>d. dict_get d ''id'') ds)"
    by simp
  then have "serve step (todos @ [new_todo d]) (map (\<lambda>d. CreateTodo (JObj d)) ds) =
     ((todos @ [new_todo d]) @ map new_todo ds,
      map (\<lambda>d. (201, MessageTodo ''Todo has been added'' (new_todo d))) ds)"
    by (rule Cons.IH)
  with fresh show ?case
    by (simp add: step flask_create_todo_def)
qed

lemma flask_dispatch_CreateTodo [simp]:
  "flask_dispatch todos (CreateTodo data) = flask_create_todo todos data"
  by (simp add: flask_dispatch_def int_converter_matches_def)

section \<open>Two toggles at the first match\<close>

lemma fastapi_toggle_complete_twice:
  assumes "\<forall>x \<in> set pre. id' x \<noteq> todo_id" and "id' t = todo_id"
  shows "fst (fastapi_toggle_complete (fst (fastapi_toggle_complete (pre @ t # post) todo_id)) todo_id) =
      pre @ t # post"
proof -
  have "id' (t\<lparr>completed := \<not> completed t\<rparr>) = todo_id"
    using assms(2) by simp
  from fastapi_toggle_complete_first [OF assms(1) this, of post]
  show ?thesis
    by (simp add: fastapi_toggle_complete_first [OF assms])
qed

lemma flask_toggle_complete_twice:
  assumes "\<forall>x \<in> set pre. \<not> py_eq (id' x) (JInt todo_id)" and "py_eq (id' t) (JInt todo_id)"
  shows "fst (flask_toggle_complete (fst (flask_toggle_complete (pre @ t # post) todo_id)) todo_id) =
      pre @ t\<lparr>completed := JBool (truthy (completed t))\<rparr> # post"
proof -
  have "py_eq (id' (t\<lparr>completed := JBool (\<not> truthy (completed t))\<rparr>)) (JInt todo_id)"
    using assms(2) by simp
  from flask_toggle_complete_first [OF assms(1) this, of post]
  show ?thesis
    by (simp add: flask_toggle_complete_first [OF assms])
qed

section \<open>Update and two toggles of a stored id\<close>

lemma update_todo_first_match:
  "(todo_id \<in> id' ` set todos \<longrightarrow>
      (\<exists>pre todo post.
         todos = pre @ todo # post \<and> todo_id \<notin> id' ` set pre \<and> id' todo = todo_id \<and>
         fastapi_update_todo todos todo_id todo_obj =
           (pre @ todo\<lparr>item := item todo_obj, completed := completed todo_obj\<rparr> # post, 200,
            MessageTodo ''Todo updated''
              (todo\<lparr>item := item todo_obj, completed := completed todo_obj\<rparr>)))) \<and>
   (list_ex (\<lambda>todo. py_eq (id' todo) (JInt todo_id)) ftodos \<longrightarrow>
      (\<exists>pre todo post.
         ftodos = pre @ todo # post \<and>
         \<not> list_ex (\<lambda>todo. py_eq (id' todo) (JInt todo_id)) pre \<and>
         py_eq (id' todo) (JInt todo_id) \<and>
         flask_update_todo ftodos todo_id (JObj d) =
           (pre @ todo\<lparr>item := (case map_of d ''item'' of None \<Rightarrow> item todo | Some v \<Rightarrow> v),
                        completed :=
                          (case map_of d ''completed'' of None \<Rightarrow> completed todo | Some v \<Rightarrow> v)\<rparr>
              # post, 200,
            MessageTodo ''Todo updated''
              (todo\<lparr>item := (case map_of d ''item'' of None \<Rightarrow> item todo | Some v \<Rightarrow> v),
                    completed :=
                      (case map_of d ''completed'' of None \<Rightarrow> completed todo | Some v \<Rightarrow> v)\<rparr>))))"
proof (intro conjI impI)
  assume "todo_id \<in> id' ` set todos"
  then have "\<exists>x \<in> set todos. id' x = todo_id" by auto
  from first_match_split [OF this] obtain pre t post where
    split: "todos = pre @ t # post" "\<forall>x \<in> set pre. id' x \<noteq> todo_id" "id' t = todo_id"
    by blast
  from split(2) have "todo_id \<notin> id' ` set pre" by auto
  with split(1,3) fastapi_update_todo_first [OF split(2,3), of post todo_obj]
  show "\<exists>pre todo post.
         todos = pre @ todo # post \<and> todo_id \<notin> id' ` set pre \<and> id' todo = todo_id \<and>
         fastapi_update_todo todos todo_id todo_obj =
           (pre @ todo\<lparr>item := item todo_obj, completed := completed todo_obj\<rparr> # post, 200,
            MessageTodo ''Todo updated''
              (todo\<lparr>item := item todo_obj, completed := completed todo_obj\<rparr>))"
    by blast
next
  assume "list_ex (\<lambda>todo. py_eq (id' todo) (JInt todo_id)) ftodos"
  then have "\<exists>x \<in> set ftodos. py_eq (id' x) (JInt todo_id)" by (simp add: list_ex_iff)
  from first_match_split [OF this] obtain pre t post where
    split: "ftodos = pre @ t # post" "\<forall>x \<in> set pre. \<not> py_eq (id' x) (JInt todo_id)"
      "py_eq (id' t) (JInt todo_id)"
    by blast
  from split(2) have "\<not> list_ex (\<lambda>todo. py_eq (id' todo) (JInt todo_id)) pre"
    by (simp add: list_ex_iff)
  with split(1,3) flask_update_todo_first [OF split(2,3), of post d]
  show "\<exists>pre todo post.
         ftodos = pre @ todo # post \<and>
         \<not> list_ex (\<lambda>todo. py_eq (id' todo) (JInt todo_id)) pre \<and>
         py_eq (id' todo) (JInt todo_id) \<and>
         flask_update_todo ftodos todo_id (JObj d) =
           (pre @ todo\<lparr>item := (case map_of d ''item'' of None \<Rightarrow> item todo | Some v \<Rightarrow> v),
                        completed :=
                          (case map_of d ''completed'' of None \<Rightarrow> completed todo | Some v \<Rightarrow> v)\<rparr>
              # post, 200,
            MessageTodo ''Todo updated''
              (todo\<lparr>item := (case map_of d ''item'' of None \<Rightarrow> item todo | Some v \<Rightarrow> v),
                    completed :=
                      (case map_of d ''completed'' of None \<Rightarrow> completed todo | Some v \<Rightarrow> v)\<rparr>))"
    unfolding dict_get_default_def by blast
qed

lemma toggle_complete_twice_first_match:
  "(todo_id \<in> id' ` set todos \<longrightarrow>
      fst (fastapi_toggle_complete (fst (fastapi_toggle_complete todos todo_id)) todo_id) = todos \<and>
      fst (snd (fastapi_toggle_complete todos todo_id)) = 200 \<and>
      fst (snd (fastapi_toggle_complete (fst (fastapi_toggle_complete todos todo_id)) todo_id)) = 200) \<and>
   (find (\<lambda>todo. py_eq (id' todo) (JInt todo_id)) ftodos = Some todo \<longrightarrow>
      (\<exists>pre post. ftodos = pre @ todo # post \<and>
         fst (flask_toggle_complete (fst (flask_toggle_complete ftodos todo_id)) todo_id) =
           pre @ todo\<lparr>completed := JBool (truthy (completed todo))\<rparr> # post) \<and>
      (completed todo = JBool b \<longrightarrow>
         fst (flask_toggle_complete (fst (flask_toggle_complete ftodos todo_id)) todo_id) = ftodos) \<and>
      fst (snd (flask_toggle_complete ftodos todo_id)) = 200 \<and>
      fst (snd (flask_toggle_complete (fst (flask_toggle_complete ftodos todo_id)) todo_id)) = 200)"
proof (intro conjI impI)
  assume "todo_id \<in> id' ` set todos"
  then have "\<exists>x \<in> set todos. id' x = todo_id" by auto
  from first_match_split [OF this] obtain pre t post where
    split: "todos = pre @ t # post" "\<forall>x \<in> set pre. id' x \<noteq> todo_id" "id' t = todo_id"
    by blast
  have t': "id' (t\<lparr>completed := \<not> completed t\<rparr>) = todo_id"
    using split(3) by simp
  show "fst (fastapi_toggle_complete (fst (fastapi_toggle_complete todos todo_id)) todo_id) = todos"
    unfolding split(1) by (rule fastapi_toggle_complete_twice [OF split(2,3)])
  show "fst (snd (fastapi_toggle_complete todos todo_id)) = 200"
    unfolding split(1) by (simp add: fastapi_toggle_complete_first [OF split(2,3)])
  show "fst (snd (fastapi_toggle_complete (fst (fastapi_toggle_complete todos todo_id)) todo_id)) = 200"
    unfolding split(1)
    by (simp add: fastapi_toggle_complete_first [OF split(2,3)]
        fastapi_toggle_complete_first [OF split(2) t'])
next
  assume "find (\<lambda>todo. py_eq (id' todo) (JInt todo_id)) ftodos = Some todo"
  from find_Some_split [OF this] obtain pre post where
    split: "ftodos = pre @ todo # post" "\<forall>x \<in> set pre. \<not> py_eq (id' x) (JInt todo_id)"
      "py_eq (id' todo) (JInt todo_id)"
    by blast
  have t': "py_eq (id' (todo\<lparr>completed := JBool (\<not> truthy (completed todo))\<rparr>)) (JInt todo_id)"
    using split(3) by simp
  have twice: "fst (flask_toggle_complete (fst (flask_toggle_complete ftodos todo_id)) todo_id) =
      pre @ todo\<lparr>completed := JBool (truthy (completed todo))\<rparr> # post"
    unfolding split(1) by (rule flask_toggle_complete_twice [OF split(2,3)])
  with split(1)
  show "\<exists>pre post. ftodos = pre @ todo # post \<and>
         fst (flask_toggle_complete (fst (flask_toggle_complete ftodos todo_id)) todo_id) =
           pre @ todo\<lparr>completed := JBool (truthy (completed todo))\<rparr> # post"
    by blast
  show "fst (flask_toggle_complete (fst (flask_toggle_complete ftodos todo_id)) todo_id) = ftodos"
    if "completed todo = JBool b"
  proof -
    from that have "todo\<lparr>completed := JBool (truthy (completed todo))\<rparr> = todo"
      by (cases todo) simp
    with twice split(1) show ?thesis by simp
  qed
  show "fst (snd (flask_toggle_complete ftodos todo_id)) = 200"
    unfolding split(1) by (simp add: flask_toggle_complete_first [OF split(2,3)])
  show "fst (snd (flask_toggle_complete (fst (flask_toggle_complete ftodos todo_id)) todo_id)) = 200"
    unfolding split(1)
    by (simp add: flask_toggle_complete_first [OF split(2,3)]
        flask_toggle_complete_first [OF split(2) t'])
qed

section \<open>The claims\<close>

text \<open>
  Claim C1. In every state of the store that a sequence of requests produces from the
  empty store, no two Todos have the same id. For the FastAPI module the ids are
  integers and pairwise different. For the Flask module the ids are JSON values and no
  two of them are equal for \<^verbatim>\<open>==\<close> (so no two are the same value either), whether
  the handlers are called directly or through the routes.
\<close>

theorem C1_no_two_todos_share_an_id:
  "distinct (map id' (fst (fastapi_run reqs))) \<and>
   py_distinct (map id' (fst (flask_run_handlers reqs'))) \<and>
   py_distinct (map id' (fst (flask_run reqs'))) \<and>
   distinct (map id' (fst (flask_run reqs')))"
proof -
  have "distinct (map id' (fst (serve fastapi_dispatch [] reqs)))"
    by (rule serve_invariant [where P = "\<lambda>s. distinct (map id' s)"])
      (simp_all add: fastapi_dispatch_distinct)
  moreover have "py_distinct (map id' (fst (serve flask_handle [] reqs')))"
    by (rule serve_invariant [where P = "\<lambda>s. py_distinct (map id' s)"])
      (simp_all add: flask_handle_py_distinct)
  moreover have "py_distinct (map id' (fst (serve flask_dispatch [] reqs')))"
    by (rule serve_invariant [where P = "\<lambda>s. py_distinct (map id' s)"])
      (simp_all add: flask_dispatch_py_distinct)
  ultimately show ?thesis
    by (simp add: fastapi_run_def flask_run_handlers_def flask_run_def py_distinct_distinct)
qed

theorem C1_no_two_todos_share_an_id_witness:
  "distinct (map id' (fst (fastapi_run
      [CreateTodo \<lparr>id' = 1, item = ''a'', completed = False\<rparr>,
       CreateTodo \<lparr>id' = 1, item = ''b'', completed = True\<rparr>,
       CreateTodo \<lparr>id' = 2, item = ''c'', completed = False\<rparr>,
       UpdateTodo 2 \<lparr>id' = 1, item = ''d'', completed = True\<rparr>,
       ToggleComplete 1,
       DeleteTodo 1,
       CreateTodo \<lparr>id' = 1, item = ''e'', completed = False\<rparr>]))) \<and>
   py_distinct (map id' (fst (flask_run_handlers
      [CreateTodo (JObj [(''id'', JBool True), (''item'', JStr ''a'')]),
       CreateTodo (JObj [(''id'', JInt 1), (''item'', JStr ''b'')]),
       CreateTodo (JObj [(''item'', JStr ''c'')]),
       UpdateTodo 1 (JObj [(''id'', JInt 7)]),
       ToggleComplete 1,
       CreateTodo (JObj [(''id'', JInt (- 3))]),
       DeleteTodo (- 3)]))) \<and>
   py_distinct (map id' (fst (flask_run
      [CreateTodo (JObj [(''id'', JBool True), (''item'', JStr ''a'')]),
       CreateTodo (JObj [(''id'', JInt 1), (''item'', JStr ''b'')]),
       CreateTodo (JObj [(''item'', JStr ''c'')]),
       UpdateTodo 1 (JObj [(''id'', JInt 7)]),
       ToggleComplete 1,
       CreateTodo (JObj [(''id'', JInt (- 3))]),
       DeleteTodo (- 3)]))) \<and>
   distinct (map id' (fst (flask_run
      [CreateTodo (JObj [(''id'', JBool True), (''item'', JStr ''a'')]),
       CreateTodo (JObj [(''id'', JInt 1), (''item'', JStr ''b'')]),
       CreateTodo (JObj [(''item'', JStr ''c'')]),
       UpdateTodo 1 (JObj [(''id'', JInt 7)]),
       ToggleComplete 1,
       CreateTodo (JObj [(''id'', JInt (- 3))]),
       DeleteTodo (- 3)])))"
  by (rule C1_no_two_todos_share_an_id)

text \<open>
  Claim C2, as stated, fails for the Flask module: \<^verbatim>\<open>update_todo\<close> reads each field
  with \<^verbatim>\<open>data.get(key, old value)\<close>, so a body without \<^verbatim>\<open>completed\<close> leaves the old
  flag in place, and the record after the update depends on the record before it.
\<close>

theorem C2_update_counterexample:
  "map_of [(''item'', JStr ''b'')] ''completed'' = None \<and>
   flask_update_todo [\<lparr>id' = JInt 1, item = JStr ''a'', completed = JBool True\<rparr>] 1
       (JObj [(''item'', JStr ''b'')]) =
     ([\<lparr>id' = JInt 1, item = JStr ''b'', completed = JBool True\<rparr>], 200,
      MessageTodo ''Todo updated'' \<lparr>id' = JInt 1, item = JStr ''b'', completed = JBool True\<rparr>) \<and>
   flask_update_todo [\<lparr>id' = JInt 1, item = JStr ''a'', completed = JBool False\<rparr>] 1
       (JObj [(''item'', JStr ''b'')]) =
     ([\<lparr>id' = JInt 1, item = JStr ''b'', completed = JBool False\<rparr>], 200,
      MessageTodo ''Todo updated'' \<lparr>id' = JInt 1, item = JStr ''b'', completed = JBool False\<rparr>)"
  by (simp add: dict_get_default_def Let_def)

text \<open>
  Claim C2, amended. Let the store hold a Todo with the requested id. The FastAPI
  update, handler and route alike, answers 200, sets \<^verbatim>\<open>item\<close> and \<^verbatim>\<open>completed\<close> of the
  first such record to the values of the validated body and echoes the record. The
  Flask handler \<^verbatim>\<open>update_todo\<close>, on a body that is a JSON object, answers 200, sets each
  of the two fields of the first such record to the body's value when the body has
  the key, keeps the old value when it has not, and echoes the record; on a body that
  is not a JSON object it answers 500 and leaves the store as it was. The Flask route
  runs that handler when the path id is not negative; for a negative path id it
  answers 404 and leaves the store as it was.
\<close>

theorem C2_update_replaces_fields:
  "(todo_id \<in> id' ` set todos \<longrightarrow>
      (\<exists>pre todo post.
         todos = pre @ todo # post \<and> todo_id \<notin> id' ` set pre \<and> id' todo = todo_id \<and>
         fastapi_update_todo todos todo_id todo_obj =
           (pre @ todo\<lparr>item := item todo_obj, completed := completed todo_obj\<rparr> # post, 200,
            MessageTodo ''Todo updated''
              (todo\<lparr>item := item todo_obj, completed := completed todo_obj\<rparr>))) \<and>
      fastapi_dispatch todos (UpdateTodo todo_id todo_obj) =
        fastapi_update_todo todos todo_id todo_obj) \<and>
   (list_ex (\<lambda>todo. py_eq (id' todo) (JInt todo_id)) ftodos \<longrightarrow>
      (\<exists>pre todo post.
         ftodos = pre @ todo # post \<and>
         \<not> list_ex (\<lambda>todo. py_eq (id' todo) (JInt todo_id)) pre \<and>
         py_eq (id' todo) (JInt todo_id) \<and>
         flask_update_todo ftodos todo_id (JObj d) =
           (pre @ todo\<lparr>item := (case map_of d ''item'' of None \<Rightarrow> item todo | Some v \<Rightarrow> v),
                        completed :=
                          (case map_of d ''completed'' of None \<Rightarrow> completed todo | Some v \<Rightarrow> v)\<rparr>
              # post, 200,
            MessageTodo ''Todo updated''
              (todo\<lparr>item := (case map_of d ''item'' of None \<Rightarrow> item todo | Some v \<Rightarrow> v),
                    completed :=
                      (case map_of d ''completed'' of None \<Rightarrow> completed todo | Some v \<Rightarrow> v)\<rparr>))) \<and>
      (\<not> is_dict data \<longrightarrow> flask_update_todo ftodos todo_id data = (ftodos, 500, Uncaught)) \<and>
      (0 \<le> todo_id \<longrightarrow>
         flask_dispatch ftodos (UpdateTodo todo_id body) = flask_update_todo ftodos todo_id body) \<and>
      (todo_id < 0 \<longrightarrow>
         flask_dispatch ftodos (UpdateTodo todo_id body) = (ftodos, 404, NoRoute)))"
proof -
  note first = update_todo_first_match [of todo_id todos todo_obj ftodos d]
  have route: "fastapi_dispatch todos (UpdateTodo todo_id todo_obj) =
      fastapi_update_todo todos todo_id todo_obj"
    by simp
  have crash: "flask_update_todo ftodos todo_id data = (ftodos, 500, Uncaught)"
    if "list_ex (\<lambda>todo. py_eq (id' todo) (JInt todo_id)) ftodos" and "\<not> is_dict data"
    using that by (rule flask_update_todo_not_dict)
  have nonneg: "flask_dispatch ftodos (UpdateTodo todo_id body) =
      flask_update_todo ftodos todo_id body" if "0 \<le> todo_id"
    using flask_dispatch_path_id(1) [of "UpdateTodo todo_id body" todo_id ftodos] that by simp
  have neg: "flask_dispatch ftodos (UpdateTodo todo_id body) = (ftodos, 404, NoRoute)"
    if "todo_id < 0"
    using flask_dispatch_path_id(2) [of "UpdateTodo todo_id body" todo_id ftodos] that by simp
  from first route crash nonneg neg show ?thesis
    by blast
qed

theorem C2_update_replaces_fields_witness:
  "(2::int) \<in> id' ` set [\<lparr>id' = 1, item = ''a'', completed = False\<rparr>,
                          \<lparr>id' = 2, item = ''b'', completed = False\<rparr>] \<and>
   fastapi_dispatch
       [\<lparr>id' = 1, item = ''a'', completed = False\<rparr>, \<lparr>id' = 2, item = ''b'', completed = False\<rparr>]
       (UpdateTodo 2 \<lparr>id' = 9, item = ''z'', completed = True\<rparr>) =
     ([\<lparr>id' = 1, item = ''a'', completed = False\<rparr>, \<lparr>id' = 2, item = ''z'', completed = True\<rparr>],
      200, MessageTodo ''Todo updated'' \<lparr>id' = 2, item = ''z'', completed = True\<rparr>) \<and>
   list_ex (\<lambda>todo. py_eq (id' todo) (JInt 2))
       [\<lparr>id' = JInt 2, item = JStr ''b'', completed = JBool True\<rparr>] \<and>
   (0::int) \<le> 2 \<and>
   flask_dispatch [\<lparr>id' = JInt 2, item = JStr ''b'', completed = JBool True\<rparr>]
       (UpdateTodo 2 (JObj [(''item'', JStr ''z'')])) =
     ([\<lparr>id' = JInt 2, item = JStr ''z'', completed = JBool True\<rparr>],
      200, MessageTodo ''Todo updated'' \<lparr>id' = JInt 2, item = JStr ''z'', completed = JBool True\<rparr>) \<and>
   \<not> is_dict (JArr []) \<and>
   flask_update_todo [\<lparr>id' = JInt 2, item = JStr ''b'', completed = JBool True\<rparr>] 2 (JArr []) =
     ([\<lparr>id' = JInt 2, item = JStr ''b'', completed = JBool True\<rparr>], 500, Uncaught) \<and>
   list_ex (\<lambda>todo. py_eq (id' todo) (JInt (- 1)))
       [\<lparr>id' = JInt (- 1), item = JStr ''n'', completed = JBool False\<rparr>] \<and>
   (- 1::int) < 0 \<and>
   flask_dispatch [\<lparr>id' = JInt (- 1), item = JStr ''n'', completed = JBool False\<rparr>]
       (UpdateTodo (- 1) (JObj [(''item'', JStr ''z'')])) =
     ([\<lparr>id' = JInt (- 1), item = JStr ''n'', completed = JBool False\<rparr>], 404, NoRoute)"
proof -
  let ?t1 = "\<lparr>id' = (1::int), item = ''a'', completed = False\<rparr>"
  let ?t2 = "\<lparr>id' = (2::int), item = ''b'', completed = False\<rparr>"
  let ?obj = "\<lparr>id' = (9::int), item = ''z'', completed = True\<rparr>"
  let ?f = "\<lparr>id' = JInt 2, item = JStr ''b'', completed = JBool True\<rparr>"
  let ?n = "\<lparr>id' = JInt (- 1), item = JStr ''n'', completed = JBool False\<rparr>"
  let ?d = "[(''item'', JStr ''z'')]"
  note c2 = C2_update_replaces_fields [of 2 "[?t1, ?t2]" ?obj "[?f]" ?d "JArr []" "JObj ?d"]
  note c2n = C2_update_replaces_fields [of "- 1" "[]" ?obj "[?n]" ?d "JArr []" "JObj ?d"]
  have h1: "(2::int) \<in> id' ` set [?t1, ?t2]" by simp
  have h2: "list_ex (\<lambda>todo. py_eq (id' todo) (JInt 2)) [?f]" by simp
  have h3: "(0::int) \<le> 2" by simp
  have h4: "\<not> is_dict (JArr [])" by simp
  have h5: "list_ex (\<lambda>todo. py_eq (id' todo) (JInt (- 1))) [?n]" by simp
  have h6: "(- 1::int) < 0" by simp
  from c2 h1 obtain pre todo post where
    a: "[?t1, ?t2] = pre @ todo # post" "2 \<notin> id' ` set pre" "id' todo = 2"
      "fastapi_update_todo [?t1, ?t2] 2 ?obj =
         (pre @ todo\<lparr>item := item ?obj, completed := completed ?obj\<rparr> # post, 200,
          MessageTodo ''Todo updated'' (todo\<lparr>item := item ?obj, completed := completed ?obj\<rparr>))"
    by blast
  from a(1,2,3) have "pre = [?t1] \<and> todo = ?t2 \<and> post = []"
    by (auto simp: Cons_eq_append_conv)
  with a(4) have "fastapi_update_todo [?t1, ?t2] 2 ?obj =
      ([?t1, \<lparr>id' = 2, item = ''z'', completed = True\<rparr>], 200,
       MessageTodo ''Todo updated'' \<lparr>id' = 2, item = ''z'', completed = True\<rparr>)"
    by simp
  moreover from c2 h1 have "fastapi_dispatch [?t1, ?t2] (UpdateTodo 2 ?obj) =
      fastapi_update_todo [?t1, ?t2] 2 ?obj"
    by blast
  ultimately have f: "fastapi_dispatch [?t1, ?t2] (UpdateTodo 2 ?obj) =
      ([?t1, \<lparr>id' = 2, item = ''z'', completed = True\<rparr>], 200,
       MessageTodo ''Todo updated'' \<lparr>id' = 2, item = ''z'', completed = True\<rparr>)"
    by (rule trans [rotated])
  from c2 h2 obtain pre todo post where
    b: "[?f] = pre @ todo # post"
      "flask_update_todo [?f] 2 (JObj ?d) =
         (pre @ todo\<lparr>item := (case map_of ?d ''item'' of None \<Rightarrow> item todo | Some v \<Rightarrow> v),
                      completed :=
                        (case map_of ?d ''completed'' of None \<Rightarrow> completed todo | Some v \<Rightarrow> v)\<rparr>
            # post, 200,
          MessageTodo ''Todo updated''
            (todo\<lparr>item := (case map_of ?d ''item'' of None \<Rightarrow> item todo | Some v \<Rightarrow> v),
                  completed :=
                    (case map_of ?d ''completed'' of None \<Rightarrow> completed todo | Some v \<Rightarrow> v)\<rparr>))"
    by blast
  from b(1) have "pre = [] \<and> todo = ?f \<and> post = []"
    by (auto simp: Cons_eq_append_conv)
  with b(2) have "flask_update_todo [?f] 2 (JObj ?d) =
      ([\<lparr>id' = JInt 2, item = JStr ''z'', completed = JBool True\<rparr>], 200,
       MessageTodo ''Todo updated'' \<lparr>id' = JInt 2, item = JStr ''z'', completed = JBool True\<rparr>)"
    by simp
  moreover from c2 h2 h3 have "flask_dispatch [?f] (UpdateTodo 2 (JObj ?d)) =
      flask_update_todo [?f] 2 (JObj ?d)"
    by blast
  ultimately have g: "flask_dispatch [?f] (UpdateTodo 2 (JObj ?d)) =
      ([\<lparr>id' = JInt 2, item = JStr ''z'', completed = JBool True\<rparr>], 200,
       MessageTodo ''Todo updated'' \<lparr>id' = JInt 2, item = JStr ''z'', completed = JBool True\<rparr>)"
    by (rule trans [rotated])
  from c2 h2 h4 have k: "flask_update_todo [?f] 2 (JArr []) = ([?f], 500, Uncaught)"
    by blast
  from c2n h5 h6 have m: "flask_dispatch [?n] (UpdateTodo (- 1) (JObj ?d)) = ([?n], 404, NoRoute)"
    by blast
  from h1 f h2 h3 g h4 k h5 h6 m show ?thesis
    by (intro conjI)
qed

text \<open>
  Claim C3, as stated, fails: a Todo with a negative id can be created in both
  modules, and a get with that id succeeds in the FastAPI module while the Flask route
  does not match.
\<close>

theorem C3_modules_differ_counterexample:
  "map fst (snd (fastapi_run
      [CreateTodo \<lparr>id' = - 1, item = ''x'', completed = False\<rparr>, GetTodo (- 1)])) = [201, 200] \<and>
   map fst (snd (flask_run (map (map_request todo_json)
      [CreateTodo \<lparr>id' = - 1, item = ''x'', completed = False\<rparr>, GetTodo (- 1)]))) = [201, 404]"
  by (simp add: fastapi_run_def flask_run_def flask_dispatch_def int_converter_matches_def
      fastapi_create_todo_def flask_create_todo_def todo_json_def new_todo_def
      dict_get_def dict_get_default_def)

text \<open>
  Claim C3, amended. On full Todo bodies the handlers of the two modules do the same:
  for every sequence of requests the Flask handlers, called directly, leave the same
  store and give the same answers (same status, delete included; the same document,
  a failure's message under \<^verbatim>\<open>error\<close> instead of \<^verbatim>\<open>detail\<close>). Through the routes the
  same holds for every sequence of requests whose path ids are not negative.
\<close>

theorem C3_modules_agree:
  "flask_run_handlers (map (map_request todo_json) reqs) =
     (map as_flask (fst (fastapi_run reqs)), map as_flask_response (snd (fastapi_run reqs))) \<and>
   (list_all int_converter_matches reqs \<longrightarrow>
      flask_run (map (map_request todo_json) reqs) =
        (map as_flask (fst (fastapi_run reqs)), map as_flask_response (snd (fastapi_run reqs))) \<and>
      map fst (snd (flask_run (map (map_request todo_json) reqs))) =
        map fst (snd (fastapi_run reqs)))"
proof (intro conjI impI)
  show "flask_run_handlers (map (map_request todo_json) reqs) =
     (map as_flask (fst (fastapi_run reqs)), map as_flask_response (snd (fastapi_run reqs)))"
    unfolding flask_run_handlers_def fastapi_run_def
    using serve_as_flask [of reqs flask_handle "[]"]
    by (simp add: flask_handle_as_flask)
next
  assume ok: "list_all int_converter_matches reqs"
  have step: "flask_dispatch (map as_flask todos) (map_request todo_json req) =
       (map as_flask (fst (fastapi_dispatch todos req)),
        as_flask_response (snd (fastapi_dispatch todos req)))"
    if "req \<in> set reqs" for todos req
  proof -
    from ok that have "int_converter_matches req" by (simp add: list_all_iff)
    then show ?thesis
      by (simp add: flask_dispatch_def flask_handle_as_flask)
  qed
  show eq: "flask_run (map (map_request todo_json) reqs) =
     (map as_flask (fst (fastapi_run reqs)), map as_flask_response (snd (fastapi_run reqs)))"
    unfolding flask_run_def fastapi_run_def
    using serve_as_flask [of reqs flask_dispatch "[]"] step
    by simp
  show "map fst (snd (flask_run (map (map_request todo_json) reqs))) =
        map fst (snd (fastapi_run reqs))"
    by (simp add: eq as_flask_response_def comp_def)
qed

theorem C3_modules_agree_witness:
  "list_all int_converter_matches
      [CreateTodo \<lparr>id' = (1::int), item = ''a'', completed = False\<rparr>,
       CreateTodo \<lparr>id' = 1, item = ''b'', completed = True\<rparr>,
       UpdateTodo 1 \<lparr>id' = 1, item = ''c'', completed = False\<rparr>,
       ToggleComplete 1, GetTodo 5, GetTodo 1, DeleteTodo 1, GetTodos] \<and>
   flask_run (map (map_request todo_json)
      [CreateTodo \<lparr>id' = 1, item = ''a'', completed = False\<rparr>,
       CreateTodo \<lparr>id' = 1, item = ''b'', completed = True\<rparr>,
       UpdateTodo 1 \<lparr>id' = 1, item = ''c'', completed = False\<rparr>,
       ToggleComplete 1, GetTodo 5, GetTodo 1, DeleteTodo 1, GetTodos]) =
     ([],
      [(201, MessageTodo ''Todo has been added''
               \<lparr>id' = JInt 1, item = JStr ''a'', completed = JBool False\<rparr>),
       (400, Error ''Todo with this ID already exists''),
       (200, MessageTodo ''Todo updated''
               \<lparr>id' = JInt 1, item = JStr ''c'', completed = JBool False\<rparr>),
       (200, MessageTodo ''Todo completion status toggled''
               \<lparr>id' = JInt 1, item = JStr ''c'', completed = JBool True\<rparr>),
       (404, Error ''Todo not found''),
       (200, OneTodo \<lparr>id' = JInt 1, item = JStr ''c'', completed = JBool True\<rparr>),
       (204, Message ''Todo removed''),
       (200, TodoList [])])"
proof -
  let ?reqs = "[CreateTodo \<lparr>id' = (1::int), item = ''a'', completed = False\<rparr>,
       CreateTodo \<lparr>id' = 1, item = ''b'', completed = True\<rparr>,
       UpdateTodo 1 \<lparr>id' = 1, item = ''c'', completed = False\<rparr>,
       ToggleComplete 1, GetTodo 5, GetTodo 1, DeleteTodo 1, GetTodos]"
  note c3 = C3_modules_agree [of ?reqs]
  have h: "list_all int_converter_matches ?reqs"
    by (simp add: int_converter_matches_def)
  have run: "fastapi_run ?reqs =
     ([],
      [(201, MessageTodo ''Todo has been added'' \<lparr>id' = 1, item = ''a'', completed = False\<rparr>),
       (400, Detail ''Todo with this ID already exists''),
       (200, MessageTodo ''Todo updated'' \<lparr>id' = 1, item = ''c'', completed = False\<rparr>),
       (200, MessageTodo ''Todo completion status toggled''
               \<lparr>id' = 1, item = ''c'', completed = True\<rparr>),
       (404, Detail ''Todo not found''),
       (200, OneTodo \<lparr>id' = 1, item = ''c'', completed = True\<rparr>),
       (204, Message ''Todo removed''),
       (200, TodoList [])])"
    by (simp add: fastapi_run_def fastapi_create_todo_def fastapi_delete_todo_def
        fastapi_get_todos_def Let_def)
  from c3 h have "flask_run (map (map_request todo_json) ?reqs) =
      (map as_flask (fst (fastapi_run ?reqs)), map as_flask_response (snd (fastapi_run ?reqs)))"
    by blast
  then have g: "flask_run (map (map_request todo_json) ?reqs) =
     ([],
      [(201, MessageTodo ''Todo has been added''
               \<lparr>id' = JInt 1, item = JStr ''a'', completed = JBool False\<rparr>),
       (400, Error ''Todo with this ID already exists''),
       (200, MessageTodo ''Todo updated''
               \<lparr>id' = JInt 1, item = JStr ''c'', completed = JBool False\<rparr>),
       (200, MessageTodo ''Todo completion status toggled''
               \<lparr>id' = JInt 1, item = JStr ''c'', completed = JBool True\<rparr>),
       (404, Error ''Todo not found''),
       (200, OneTodo \<lparr>id' = JInt 1, item = JStr ''c'', completed = JBool True\<rparr>),
       (204, Message ''Todo removed''),
       (200, TodoList [])])"
    unfolding run by (simp add: as_flask_response_def as_flask_def)
  from h g show ?thesis
    by (intro conjI)
qed

text \<open>
  Claim C4. A create whose id equals the id of a Todo in the store answers 400 and
  leaves the store as it was. In the Flask module the body is a JSON object and equal
  means equal for \<^verbatim>\<open>==\<close>.
\<close>

theorem C4_create_conflict:
  "(id' todo \<in> id' ` set todos \<longrightarrow>
      fastapi_create_todo todos todo =
        (todos, 400, Detail ''Todo with this ID already exists'')) \<and>
   ((\<exists>existing_todo \<in> set ftodos. py_eq (id' existing_todo) (dict_get d ''id'')) \<longrightarrow>
      flask_create_todo ftodos (JObj d) =
        (ftodos, 400, Error ''Todo with this ID already exists''))"
  by (auto simp: fastapi_create_todo_def flask_create_todo_def list_ex_iff)

theorem C4_create_conflict_witness:
  "(2::int) \<in> id' ` set [\<lparr>id' = 1, item = ''a'', completed = False\<rparr>,
                          \<lparr>id' = 2, item = ''b'', completed = True\<rparr>] \<and>
   fastapi_create_todo
     [\<lparr>id' = 1, item = ''a'', completed = False\<rparr>, \<lparr>id' = 2, item = ''b'', completed = True\<rparr>]
     \<lparr>id' = 2, item = ''c'', completed = False\<rparr> =
     ([\<lparr>id' = 1, item = ''a'', completed = False\<rparr>, \<lparr>id' = 2, item = ''b'', completed = True\<rparr>],
      400, Detail ''Todo with this ID already exists'') \<and>
   (\<exists>existing_todo \<in> set [\<lparr>id' = JInt 1, item = JStr ''a'', completed = JBool False\<rparr>].
      py_eq (id' existing_todo) (dict_get [(''id'', JBool True), (''item'', JStr ''c'')] ''id'')) \<and>
   flask_create_todo [\<lparr>id' = JInt 1, item = JStr ''a'', completed = JBool False\<rparr>]
     (JObj [(''id'', JBool True), (''item'', JStr ''c'')]) =
     ([\<lparr>id' = JInt 1, item = JStr ''a'', completed = JBool False\<rparr>],
      400, Error ''Todo with this ID already exists'')"
proof -
  let ?ts = "[\<lparr>id' = 1, item = ''a'', completed = False\<rparr>,
              \<lparr>id' = (2::int), item = ''b'', completed = True\<rparr>]"
  let ?t = "\<lparr>id' = (2::int), item = ''c'', completed = False\<rparr>"
  let ?fs = "[\<lparr>id' = JInt 1, item = JStr ''a'', completed = JBool False\<rparr>]"
  let ?d = "[(''id'', JBool True), (''item'', JStr ''c'')]"
  note c4 = C4_create_conflict [of ?t ?ts ?fs ?d]
  have h1: "(2::int) \<in> id' ` set ?ts" by simp
  have h2: "\<exists>existing_todo \<in> set ?fs. py_eq (id' existing_todo) (dict_get ?d ''id'')"
    by (simp add: dict_get_def dict_get_default_def)
  from c4 h1 have f: "fastapi_create_todo ?ts ?t =
      (?ts, 400, Detail ''Todo with this ID already exists'')"
    by simp
  from c4 h2 have g: "flask_create_todo ?fs (JObj ?d) =
      (?fs, 400, Error ''Todo with this ID already exists'')"
    by blast
  from h1 f h2 g show ?thesis
    by (intro conjI)
qed

text \<open>
  Claim C5. When no Todo of the store has the requested id, get, update, toggle and
  delete answer 404 and leave the store as it was. In the Flask module the id is
  compared with \<^verbatim>\<open>==\<close>; the same holds through its routes.
\<close>

theorem C5_not_found:
  "(todo_id \<notin> id' ` set todos \<longrightarrow>
      fastapi_get_todo todos todo_id = (404, Detail ''Todo not found'') \<and>
      fastapi_update_todo todos todo_id todo_obj = (todos, 404, Detail ''Todo not found'') \<and>
      fastapi_toggle_complete todos todo_id = (todos, 404, Detail ''Todo not found'') \<and>
      fastapi_delete_todo todos todo_id = (todos, 404, Detail ''Todo not found'')) \<and>
   (\<not> list_ex (\<lambda>todo. py_eq (id' todo) (JInt todo_id)) ftodos \<longrightarrow>
      flask_get_todo ftodos todo_id = (404, Error ''Todo not found'') \<and>
      flask_update_todo ftodos todo_id data = (ftodos, 404, Error ''Todo not found'') \<and>
      flask_toggle_complete ftodos todo_id = (ftodos, 404, Error ''Todo not found'') \<and>
      flask_delete_todo ftodos todo_id = (ftodos, 404, Error ''Todo not found'') \<and>
      (\<forall>req \<in> {GetTodo todo_id, UpdateTodo todo_id data, ToggleComplete todo_id,
                 DeleteTodo todo_id}.
         fst (flask_dispatch ftodos req) = ftodos \<and> fst (snd (flask_dispatch ftodos req)) = 404))"
proof -
  have "\<not> list_ex (\<lambda>todo. py_eq (id' todo) (JInt todo_id)) ftodos \<Longrightarrow>
      \<forall>x \<in> set ftodos. \<not> py_eq (id' x) (JInt todo_id)"
    by (simp add: list_ex_iff)
  then show ?thesis
    by (simp add: fastapi_get_todo_absent fastapi_update_todo_absent
        fastapi_toggle_complete_absent fastapi_delete_todo_absent
        flask_get_todo_absent flask_update_todo_absent
        flask_toggle_complete_absent flask_delete_todo_absent flask_dispatch_def)
qed

theorem C5_not_found_witness:
  "(3::int) \<notin> id' ` set [\<lparr>id' = 1, item = ''a'', completed = False\<rparr>] \<and>
   fastapi_get_todo [\<lparr>id' = 1, item = ''a'', completed = False\<rparr>] 3 =
     (404, Detail ''Todo not found'') \<and>
   fastapi_delete_todo [\<lparr>id' = 1, item = ''a'', completed = False\<rparr>] 3 =
     ([\<lparr>id' = 1, item = ''a'', completed = False\<rparr>], 404, Detail ''Todo not found'') \<and>
   \<not> list_ex (\<lambda>todo. py_eq (id' todo) (JInt 3))
       [\<lparr>id' = JBool True, item = JStr ''a'', completed = JNull\<rparr>] \<and>
   flask_update_todo [\<lparr>id' = JBool True, item = JStr ''a'', completed = JNull\<rparr>] 3 (JArr []) =
     ([\<lparr>id' = JBool True, item = JStr ''a'', completed = JNull\<rparr>], 404, Error ''Todo not found'') \<and>
   flask_delete_todo [\<lparr>id' = JBool True, item = JStr ''a'', completed = JNull\<rparr>] 3 =
     ([\<lparr>id' = JBool True, item = JStr ''a'', completed = JNull\<rparr>], 404, Error ''Todo not found'')"
proof -
  let ?ts = "[\<lparr>id' = (1::int), item = ''a'', completed = False\<rparr>]"
  let ?fs = "[\<lparr>id' = JBool True, item = JStr ''a'', completed = JNull\<rparr>]"
  note c5 = C5_not_found [of 3 ?ts undefined ?fs "JArr []"]
  have h1: "(3::int) \<notin> id' ` set ?ts" by simp
  have h2: "\<not> list_ex (\<lambda>todo. py_eq (id' todo) (JInt 3)) ?fs" by simp
  from c5 h1 have f1: "fastapi_get_todo ?ts 3 = (404, Detail ''Todo not found'')"
    and f2: "fastapi_delete_todo ?ts 3 = (?ts, 404, Detail ''Todo not found'')"
    by blast+
  from c5 h2 have g1: "flask_update_todo ?fs 3 (JArr []) = (?fs, 404, Error ''Todo not found'')"
    and g2: "flask_delete_todo ?fs 3 = (?fs, 404, Error ''Todo not found'')"
    by blast+
  from h1 f1 f2 h2 g1 g2 show ?thesis
    by (intro conjI)
qed

text \<open>
  Claim C6. Creates with pairwise distinct ids, sent to the empty store, all succeed
  with status 201, and the list operation then returns exactly the created Todos in
  the order of their creation.
\<close>

theorem C6_list_returns_creates_in_order:
  "(distinct (map id' ts) \<longrightarrow>
      fastapi_run (map CreateTodo ts) =
        (ts, map (\<lambda>t. (201, MessageTodo ''Todo has been added'' t)) ts) \<and>
      fastapi_get_todos (fst (fastapi_run (map CreateTodo ts))) = (200, TodoList ts)) \<and>
   (py_distinct (map (\<lambda>d. dict_get d ''id'') ds) \<longrightarrow>
      flask_run (map (\<lambda>d. CreateTodo (JObj d)) ds) =
        (map new_todo ds,
         map (\<lambda>d. (201, MessageTodo ''Todo has been added'' (new_todo d))) ds) \<and>
      flask_get_todos (fst (flask_run (map (\<lambda>d. CreateTodo (JObj d)) ds))) =
        (200, TodoList (map new_todo ds)))"
  using serve_fastapi_creates [of "[]" ts]
    serve_flask_creates [of flask_dispatch "[]" ds]
  by (simp add: fastapi_run_def flask_run_def fastapi_get_todos_def flask_get_todos_def)

theorem C6_list_returns_creates_in_order_witness:
  "distinct (map id'
      [\<lparr>id' = 3, item = ''c'', completed = False\<rparr>,
       \<lparr>id' = 1, item = ''a'', completed = True\<rparr>,
       \<lparr>id' = (2::int), item = ''b'', completed = False\<rparr>]) \<and>
   fastapi_get_todos (fst (fastapi_run (map CreateTodo
      [\<lparr>id' = 3, item = ''c'', completed = False\<rparr>,
       \<lparr>id' = 1, item = ''a'', completed = True\<rparr>,
       \<lparr>id' = 2, item = ''b'', completed = False\<rparr>]))) =
     (200, TodoList
      [\<lparr>id' = 3, item = ''c'', completed = False\<rparr>,
       \<lparr>id' = 1, item = ''a'', completed = True\<rparr>,
       \<lparr>id' = 2, item = ''b'', completed = False\<rparr>]) \<and>
   py_distinct (map (\<lambda>d. dict_get d ''id'')
      [[(''id'', JInt 3), (''item'', JStr ''c'')],
       [(''id'', JInt 1), (''item'', JStr ''a''), (''completed'', JBool True)]]) \<and>
   flask_get_todos (fst (flask_run (map (\<lambda>d. CreateTodo (JObj d))
      [[(''id'', JInt 3), (''item'', JStr ''c'')],
       [(''id'', JInt 1), (''item'', JStr ''a''), (''completed'', JBool True)]]))) =
     (200, TodoList
      [\<lparr>id' = JInt 3, item = JStr ''c'', completed = JBool False\<rparr>,
       \<lparr>id' = JInt 1, item = JStr ''a'', completed = JBool True\<rparr>])"
proof -
  let ?ts = "[\<lparr>id' = 3, item = ''c'', completed = False\<rparr>,
              \<lparr>id' = 1, item = ''a'', completed = True\<rparr>,
              \<lparr>id' = (2::int), item = ''b'', completed = False\<rparr>]"
  let ?ds = "[[(''id'', JInt 3), (''item'', JStr ''c'')],
              [(''id'', JInt 1), (''item'', JStr ''a''), (''completed'', JBool True)]]"
  note c6 = C6_list_returns_creates_in_order [of ?ts ?ds]
  have h1: "distinct (map id' ?ts)"
    by simp
  have h2: "py_distinct (map (\<lambda>d. dict_get d ''id'') ?ds)"
    by (simp add: dict_get_def dict_get_default_def)
  have n: "map new_todo ?ds =
      [\<lparr>id' = JInt 3, item = JStr ''c'', completed = JBool False\<rparr>,
       \<lparr>id' = JInt 1, item = JStr ''a'', completed = JBool True\<rparr>]"
    by (simp add: new_todo_def dict_get_def dict_get_default_def)
  from c6 h1 have f: "fastapi_get_todos (fst (fastapi_run (map CreateTodo ?ts))) =
      (200, TodoList ?ts)"
    by blast
  from c6 h2 have g: "flask_get_todos (fst (flask_run (map (\<lambda>d. CreateTodo (JObj d)) ?ds))) =
      (200, TodoList (map new_todo ?ds))"
    by blast
  from h1 f h2 g [unfolded n] show ?thesis
    by (intro conjI)
qed

text \<open>
  Claim C7, as stated, fails for the Flask module: \<^verbatim>\<open>completed\<close> may hold any JSON
  value, \<^verbatim>\<open>not\<close> turns it into a boolean, and two toggles of a Todo created with
  \<^verbatim>\<open>"completed": null\<close> end with \<^verbatim>\<open>false\<close>.
\<close>

theorem C7_toggle_twice_counterexample:
  "fst (flask_run
      [CreateTodo (JObj [(''id'', JInt 1), (''item'', JStr ''x''), (''completed'', JNull)])]) =
     [\<lparr>id' = JInt 1, item = JStr ''x'', completed = JNull\<rparr>] \<and>
   fst (flask_run
      [CreateTodo (JObj [(''id'', JInt 1), (''item'', JStr ''x''), (''completed'', JNull)]),
       ToggleComplete 1, ToggleComplete 1]) =
     [\<lparr>id' = JInt 1, item = JStr ''x'', completed = JBool False\<rparr>] \<and>
   fst (flask_toggle_complete (fst (flask_toggle_complete
      [\<lparr>id' = JInt 1, item = JStr ''x'', completed = JNull\<rparr>] 1)) 1) \<noteq>
     [\<lparr>id' = JInt 1, item = JStr ''x'', completed = JNull\<rparr>]"
  by (simp add: flask_run_def flask_dispatch_def int_converter_matches_def
      flask_create_todo_def new_todo_def dict_get_def dict_get_default_def Let_def)

text \<open>
  Claim C7, amended. In the FastAPI module, handler and route alike, two toggles of
  an id that is in the store both answer 200 and leave the store as it was before
  them. The Flask handler \<^verbatim>\<open>toggle_complete\<close>, called twice with an id that is in the
  store, answers 200 both times and sets \<^verbatim>\<open>completed\<close> of the first record with that id
  to the truth value of what it held; when it held a boolean the store is as it was
  before. The Flask route runs that handler when the path id is not negative; for a
  negative path id both toggles answer 404 and leave the store as it was.
\<close>

theorem C7_toggle_twice:
  "(todo_id \<in> id' ` set todos \<longrightarrow>
      fst (fastapi_toggle_complete (fst (fastapi_toggle_complete todos todo_id)) todo_id) = todos \<and>
      fst (snd (fastapi_toggle_complete todos todo_id)) = 200 \<and>
      fst (snd (fastapi_toggle_complete (fst (fastapi_toggle_complete todos todo_id)) todo_id)) = 200 \<and>
      fst (serve fastapi_dispatch todos [ToggleComplete todo_id, ToggleComplete todo_id]) = todos \<and>
      map fst (snd (serve fastapi_dispatch todos [ToggleComplete todo_id, ToggleComplete todo_id])) =
        [200, 200]) \<and>
   (find (\<lambda>todo. py_eq (id' todo) (JInt todo_id)) ftodos = Some todo \<longrightarrow>
      (\<exists>pre post. ftodos = pre @ todo # post \<and>
         fst (flask_toggle_complete (fst (flask_toggle_complete ftodos todo_id)) todo_id) =
           pre @ todo\<lparr>completed := JBool (truthy (completed todo))\<rparr> # post) \<and>
      (completed todo = JBool b \<longrightarrow>
         fst (flask_toggle_complete (fst (flask_toggle_complete ftodos todo_id)) todo_id) = ftodos) \<and>
      fst (snd (flask_toggle_complete ftodos todo_id)) = 200 \<and>
      fst (snd (flask_toggle_complete (fst (flask_toggle_complete ftodos todo_id)) todo_id)) = 200 \<and>
      (0 \<le> todo_id \<longrightarrow>
         fst (serve flask_dispatch ftodos [ToggleComplete todo_id, ToggleComplete todo_id]) =
           fst (flask_toggle_complete (fst (flask_toggle_complete ftodos todo_id)) todo_id) \<and>
         map fst (snd (serve flask_dispatch ftodos
            [ToggleComplete todo_id, ToggleComplete todo_id])) = [200, 200]) \<and>
      (todo_id < 0 \<longrightarrow>
         serve flask_dispatch ftodos [ToggleComplete todo_id, ToggleComplete todo_id] =
           (ftodos, [(404, NoRoute), (404, NoRoute)])))"
proof -
  note handlers = toggle_complete_twice_first_match [of todo_id todos ftodos todo b]
  have fa: "serve fastapi_dispatch todos [ToggleComplete todo_id, ToggleComplete todo_id] =
      (fst (fastapi_toggle_complete (fst (fastapi_toggle_complete todos todo_id)) todo_id),
       [snd (fastapi_toggle_complete todos todo_id),
        snd (fastapi_toggle_complete (fst (fastapi_toggle_complete todos todo_id)) todo_id)])"
    by (simp split: prod.splits)
  have fl: "serve flask_dispatch ftodos [ToggleComplete todo_id, ToggleComplete todo_id] =
      (fst (flask_toggle_complete (fst (flask_toggle_complete ftodos todo_id)) todo_id),
       [snd (flask_toggle_complete ftodos todo_id),
        snd (flask_toggle_complete (fst (flask_toggle_complete ftodos todo_id)) todo_id)])"
    if "0 \<le> todo_id"
    using that by (simp add: flask_dispatch_def int_converter_matches_def split: prod.splits)
  have neg: "serve flask_dispatch ftodos [ToggleComplete todo_id, ToggleComplete todo_id] =
      (ftodos, [(404, NoRoute), (404, NoRoute)])"
    if "todo_id < 0"
    using that by (simp add: flask_dispatch_def int_converter_matches_def)
  from handlers fa fl neg show ?thesis
    by (auto simp del: serve.simps)
qed

theorem C7_toggle_twice_witness:
  "(2::int) \<in> id' ` set [\<lparr>id' = 1, item = ''a'', completed = False\<rparr>,
                          \<lparr>id' = 2, item = ''b'', completed = True\<rparr>] \<and>
   fst (serve fastapi_dispatch
      [\<lparr>id' = 1, item = ''a'', completed = False\<rparr>, \<lparr>id' = 2, item = ''b'', completed = True\<rparr>]
      [ToggleComplete 2, ToggleComplete 2]) =
     [\<lparr>id' = 1, item = ''a'', completed = False\<rparr>, \<lparr>id' = 2, item = ''b'', completed = True\<rparr>] \<and>
   find (\<lambda>todo. py_eq (id' todo) (JInt 2))
      [\<lparr>id' = JInt 1, item = JStr ''a'', completed = JNull\<rparr>,
       \<lparr>id' = JInt 2, item = JStr ''b'', completed = JBool True\<rparr>] =
     Some \<lparr>id' = JInt 2, item = JStr ''b'', completed = JBool True\<rparr> \<and>
   (0::int) \<le> 2 \<and>
   fst (serve flask_dispatch
      [\<lparr>id' = JInt 1, item = JStr ''a'', completed = JNull\<rparr>,
       \<lparr>id' = JInt 2, item = JStr ''b'', completed = JBool True\<rparr>]
      [ToggleComplete 2, ToggleComplete 2]) =
     [\<lparr>id' = JInt 1, item = JStr ''a'', completed = JNull\<rparr>,
      \<lparr>id' = JInt 2, item = JStr ''b'', completed = JBool True\<rparr>] \<and>
   map fst (snd (serve flask_dispatch
      [\<lparr>id' = JInt 1, item = JStr ''a'', completed = JNull\<rparr>,
       \<lparr>id' = JInt 2, item = JStr ''b'', completed = JBool True\<rparr>]
      [ToggleComplete 2, ToggleComplete 2])) = [200, 200] \<and>
   find (\<lambda>todo. py_eq (id' todo) (JInt (- 1)))
      [\<lparr>id' = JInt (- 1), item = JStr ''n'', completed = JBool False\<rparr>] =
     Some \<lparr>id' = JInt (- 1), item = JStr ''n'', completed = JBool False\<rparr> \<and>
   (- 1::int) < 0 \<and>
   serve flask_dispatch [\<lparr>id' = JInt (- 1), item = JStr ''n'', completed = JBool False\<rparr>]
      [ToggleComplete (- 1), ToggleComplete (- 1)] =
     ([\<lparr>id' = JInt (- 1), item = JStr ''n'', completed = JBool False\<rparr>],
      [(404, NoRoute), (404, NoRoute)])"
proof -
  let ?ts = "[\<lparr>id' = (1::int), item = ''a'', completed = False\<rparr>,
              \<lparr>id' = 2, item = ''b'', completed = True\<rparr>]"
  let ?fs = "[\<lparr>id' = JInt 1, item = JStr ''a'', completed = JNull\<rparr>,
              \<lparr>id' = JInt 2, item = JStr ''b'', completed = JBool True\<rparr>]"
  let ?f = "\<lparr>id' = JInt 2, item = JStr ''b'', completed = JBool True\<rparr>"
  let ?n = "\<lparr>id' = JInt (- 1), item = JStr ''n'', completed = JBool False\<rparr>"
  note c7 = C7_toggle_twice [of 2 ?ts ?fs ?f True]
  note c7n = C7_toggle_twice [of "- 1" "[]" "[?n]" ?n False]
  have h1: "(2::int) \<in> id' ` set ?ts" by simp
  have h2: "find (\<lambda>todo. py_eq (id' todo) (JInt 2)) ?fs = Some ?f" by simp
  have h3: "completed ?f = JBool True" by simp
  have h4: "(0::int) \<le> 2" by simp
  have h5: "find (\<lambda>todo. py_eq (id' todo) (JInt (- 1))) [?n] = Some ?n" by simp
  have h6: "(- 1::int) < 0" by simp
  from c7 h1 have a: "fst (serve fastapi_dispatch ?ts [ToggleComplete 2, ToggleComplete 2]) = ?ts"
    by blast
  from c7 h2 h3 have "fst (flask_toggle_complete (fst (flask_toggle_complete ?fs 2)) 2) = ?fs"
    by blast
  moreover from c7 h2 h4
  have "fst (serve flask_dispatch ?fs [ToggleComplete 2, ToggleComplete 2]) =
      fst (flask_toggle_complete (fst (flask_toggle_complete ?fs 2)) 2)"
    by blast
  ultimately have b: "fst (serve flask_dispatch ?fs [ToggleComplete 2, ToggleComplete 2]) = ?fs"
    by (rule trans [rotated])
  from c7 h2 h4
  have c: "map fst (snd (serve flask_dispatch ?fs [ToggleComplete 2, ToggleComplete 2])) = [200, 200]"
    by blast
  from c7n h5 h6
  have d: "serve flask_dispatch [?n] [ToggleComplete (- 1), ToggleComplete (- 1)] =
      ([?n], [(404, NoRoute), (404, NoRoute)])"
    by blast
  from h1 a h2 h4 b c h5 h6 d show ?thesis
    by (intro conjI)
qed

text \<open>
  Claim C8. Update and toggle never change the id of any record, whatever id the
  body of the update carries, and they leave every record whose id is not the
  requested one as it was.
\<close>

theorem C8_id_immutable:
  "map id' (fst (fastapi_update_todo todos todo_id todo_obj)) = map id' todos \<and>
   map id' (fst (fastapi_toggle_complete todos todo_id)) = map id' todos \<and>
   (\<forall>j < length todos. id' (todos ! j) \<noteq> todo_id \<longrightarrow>
      fst (fastapi_update_todo todos todo_id todo_obj) ! j = todos ! j \<and>
      fst (fastapi_toggle_complete todos todo_id) ! j = todos ! j) \<and>
   map id' (fst (flask_update_todo ftodos todo_id data)) = map id' ftodos \<and>
   map id' (fst (flask_toggle_complete ftodos todo_id)) = map id' ftodos \<and>
   (\<forall>j < length ftodos. \<not> py_eq (id' (ftodos ! j)) (JInt todo_id) \<longrightarrow>
      fst (flask_update_todo ftodos todo_id data) ! j = ftodos ! j \<and>
      fst (flask_toggle_complete ftodos todo_id) ! j = ftodos ! j)"
  by (simp add: fastapi_update_todo_ids fastapi_toggle_complete_ids
      fastapi_update_todo_others fastapi_toggle_complete_others
      flask_update_todo_ids flask_toggle_complete_ids
      flask_update_todo_others flask_toggle_complete_others)


theorem C8_id_immutable_witness:
  "map id' (fst (fastapi_update_todo
      [\<lparr>id' = 1, item = ''a'', completed = False\<rparr>, \<lparr>id' = 2, item = ''b'', completed = False\<rparr>]
      2 \<lparr>id' = 9, item = ''z'', completed = True\<rparr>)) = [1, 2] \<and>
   fst (fastapi_update_todo
      [\<lparr>id' = 1, item = ''a'', completed = False\<rparr>, \<lparr>id' = 2, item = ''b'', completed = False\<rparr>]
      2 \<lparr>id' = 9, item = ''z'', completed = True\<rparr>) ! 0 =
     \<lparr>id' = 1, item = ''a'', completed = False\<rparr> \<and>
   map id' (fst (flask_update_todo
      [\<lparr>id' = JInt 1, item = JStr ''a'', completed = JBool False\<rparr>,
       \<lparr>id' = JInt 2, item = JStr ''b'', completed = JBool False\<rparr>]
      2 (JObj [(''id'', JInt 9), (''item'', JStr ''z''), (''completed'', JBool True)]))) =
     [JInt 1, JInt 2] \<and>
   fst (flask_toggle_complete
      [\<lparr>id' = JInt 1, item = JStr ''a'', completed = JBool False\<rparr>,
       \<lparr>id' = JInt 2, item = JStr ''b'', completed = JBool False\<rparr>] 2) ! 0 =
     \<lparr>id' = JInt 1, item = JStr ''a'', completed = JBool False\<rparr>"
proof -
  let ?ts = "[\<lparr>id' = (1::int), item = ''a'', completed = False\<rparr>,
              \<lparr>id' = 2, item = ''b'', completed = False\<rparr>]"
  let ?obj = "\<lparr>id' = (9::int), item = ''z'', completed = True\<rparr>"
  let ?fs = "[\<lparr>id' = JInt 1, item = JStr ''a'', completed = JBool False\<rparr>,
              \<lparr>id' = JInt 2, item = JStr ''b'', completed = JBool False\<rparr>]"
  let ?data = "JObj [(''id'', JInt 9), (''item'', JStr ''z''), (''completed'', JBool True)]"
  note c8 = C8_id_immutable [of ?ts 2 ?obj ?fs ?data]
  have h1: "0 < length ?ts" "id' (?ts ! 0) \<noteq> 2" by simp_all
  have h2: "0 < length ?fs" "\<not> py_eq (id' (?fs ! 0)) (JInt 2)" by simp_all
  have i1: "map id' ?ts = [1, 2]" and i2: "map id' ?fs = [JInt 1, JInt 2]"
    and e1: "?ts ! 0 = \<lparr>id' = 1, item = ''a'', completed = False\<rparr>"
    and e2: "?fs ! 0 = \<lparr>id' = JInt 1, item = JStr ''a'', completed = JBool False\<rparr>"
    by simp_all
  from c8 have a: "map id' (fst (fastapi_update_todo ?ts 2 ?obj)) = map id' ?ts"
    and c: "map id' (fst (flask_update_todo ?fs 2 ?data)) = map id' ?fs"
    by blast+
  from c8 h1 have b: "fst (fastapi_update_todo ?ts 2 ?obj) ! 0 = ?ts ! 0"
    by blast
  from c8 h2 have d: "fst (flask_toggle_complete ?fs 2) ! 0 = ?fs ! 0"
    by blast
  from a [unfolded i1] b [unfolded e1] c [unfolded i2] d [unfolded e2] show ?thesis
    by (intro conjI)
qed

text \<open>
  Claim C10. The Flask create does not check that the body has an id. When the store
  has no Todo whose id is null, a create whose body (a JSON object) has no \<^verbatim>\<open>id\<close>
  answers 201 and appends a Todo with id null, with item null when the body has no
  \<^verbatim>\<open>item\<close> and completed false when it has no \<^verbatim>\<open>completed\<close>; any further create
  without an id then answers 400.
\<close>

theorem C10_flask_create_without_id:
  assumes "map_of d ''id'' = None"
    and "\<not> list_ex (\<lambda>todo. id' todo = JNull) todos"
  shows "flask_create_todo todos (JObj d) =
      (todos @ [new_todo d], 201, MessageTodo ''Todo has been added'' (new_todo d)) \<and>
    new_todo d =
      \<lparr>id' = JNull,
       item = (case map_of d ''item'' of None \<Rightarrow> JNull | Some v \<Rightarrow> v),
       completed = (case map_of d ''completed'' of None \<Rightarrow> JBool False | Some v \<Rightarrow> v)\<rparr> \<and>
    (\<forall>d2. map_of d2 ''id'' = None \<longrightarrow>
       flask_create_todo (todos @ [new_todo d]) (JObj d2) =
         (todos @ [new_todo d], 400, Error ''Todo with this ID already exists''))"
proof -
  from assms(1) have id: "dict_get d ''id'' = JNull"
    by (simp add: dict_get_def dict_get_default_def)
  from assms(2) have "\<not> list_ex (\<lambda>todo. py_eq (id' todo) JNull) todos"
    by (simp add: py_eq_JNull_iff)
  then have first: "flask_create_todo todos (JObj d) =
      (todos @ [new_todo d], 201, MessageTodo ''Todo has been added'' (new_todo d))"
    by (simp add: flask_create_todo_def id)
  have shape: "new_todo d =
      \<lparr>id' = JNull,
       item = (case map_of d ''item'' of None \<Rightarrow> JNull | Some v \<Rightarrow> v),
       completed = (case map_of d ''completed'' of None \<Rightarrow> JBool False | Some v \<Rightarrow> v)\<rparr>"
    using id by (simp add: new_todo_def dict_get_def dict_get_default_def)
  have second: "flask_create_todo (todos @ [new_todo d]) (JObj d2) =
      (todos @ [new_todo d], 400, Error ''Todo with this ID already exists'')"
    if "map_of d2 ''id'' = None" for d2
  proof -
    from that have "dict_get d2 ''id'' = JNull"
      by (simp add: dict_get_def dict_get_default_def)
    then show ?thesis
      by (simp add: flask_create_todo_def id)
  qed
  from first shape second show ?thesis by blast
qed

theorem C10_flask_create_without_id_witness:
  "map_of [(''item'', JStr ''x'')] ''id'' = None \<and>
   \<not> list_ex (\<lambda>todo. id' todo = JNull)
       [\<lparr>id' = JInt 1, item = JStr ''a'', completed = JBool False\<rparr>] \<and>
   flask_create_todo [\<lparr>id' = JInt 1, item = JStr ''a'', completed = JBool False\<rparr>]
       (JObj [(''item'', JStr ''x'')]) =
     ([\<lparr>id' = JInt 1, item = JStr ''a'', completed = JBool False\<rparr>,
       \<lparr>id' = JNull, item = JStr ''x'', completed = JBool False\<rparr>],
      201, MessageTodo ''Todo has been added''
        \<lparr>id' = JNull, item = JStr ''x'', completed = JBool False\<rparr>) \<and>
   flask_create_todo
       [\<lparr>id' = JInt 1, item = JStr ''a'', completed = JBool False\<rparr>,
        \<lparr>id' = JNull, item = JStr ''x'', completed = JBool False\<rparr>]
       (JObj []) =
     ([\<lparr>id' = JInt 1, item = JStr ''a'', completed = JBool False\<rparr>,
       \<lparr>id' = JNull, item = JStr ''x'', completed = JBool False\<rparr>],
      400, Error ''Todo with this ID already exists'')"
proof -
  let ?fs = "[\<lparr>id' = JInt 1, item = JStr ''a'', completed = JBool False\<rparr>]"
  let ?d = "[(''item'', JStr ''x'')]"
  have h1: "map_of ?d ''id'' = None" by simp
  have h2: "\<not> list_ex (\<lambda>todo. id' todo = JNull) ?fs" by simp
  have h3: "map_of ([]::(string \<times> json) list) ''id'' = None" by simp
  note c10 = C10_flask_create_without_id [OF h1 h2]
  from c10 have n: "new_todo ?d = \<lparr>id' = JNull, item = JStr ''x'', completed = JBool False\<rparr>"
    by simp
  from c10 have a: "flask_create_todo ?fs (JObj ?d) =
      (?fs @ [new_todo ?d], 201, MessageTodo ''Todo has been added'' (new_todo ?d))"
    by blast
  from c10 h3 have b: "flask_create_todo (?fs @ [new_todo ?d]) (JObj []) =
      (?fs @ [new_todo ?d], 400, Error ''Todo with this ID already exists'')"
    by blast
  from h1 h2 a b show ?thesis
    unfolding n by simp
qed

end
